theory Spec2Isabelle
  imports
    Complex_Main
    "HOL-Library.Char_ord"
    "HOL-Library.List_Lexorder"
    "HOL-Library.Product_Lexorder"
begin

section \<open>Values, errors and frames\<close>

text \<open>
  The program (\<^verbatim>\<open>ingest.py\<close>, \<^verbatim>\<open>app.py\<close>, \<^verbatim>\<open>utils.py\<close>, \<^verbatim>\<open>viz.py\<close>) is a
  thin layer over pandas. Its own functions are embedded statement by statement
  below; each pandas operation they call is embedded as a function of its own,
  after the documented behaviour of that operation.

  A cell is a number, a text, a timestamp (nanoseconds since 1970-01-01) or the
  missing value (NaN, None and NaT alike). Numbers are exact rationals: the
  rounding of float64 and the wrap-around of int64 are outside this model.
  Python strings are byte strings holding their UTF-8 encoding.
\<close>

datatype cell = Num rat | Str string | Ts int | NA

text \<open>
  Exceptions. \<open>UnsupportedFormat\<close>, \<open>UnreadableFile\<close> and \<open>InvalidChartRequest\<close> are
  the \<^verbatim>\<open>raise ValueError(...)\<close> statements of the program itself (routing by
  extension, exhausted CSV fallbacks, chart requests); the others are raised inside
  pandas.
\<close>

datatype exn =
    UnsupportedFormat
  | UnreadableFile
  | InvalidChartRequest
  | KeyError string
  | IndexingError
  | PdValueError
  | PdTypeError
  | UnicodeDecodeError
  | EmptyDataError
  | ParserError

text \<open>
  A Series has a name, a named index and values; a DataFrame has named columns in
  order, and a named row index. All columns of a frame built by the readers have
  the length of the index.
\<close>

record 'a series =
  sname :: "string option"
  sidx_name :: "string option"
  sidx :: "cell list"
  svals :: "'a list"

record dataframe =
  cols :: "(string \<times> cell list) list"
  idx_name :: "string option"
  idx :: "cell list"

definition RangeIndex :: "nat \<Rightarrow> cell list" where
  "RangeIndex n = map (\<lambda>i. Num (of_nat i)) [0..<n]"

definition columns :: "dataframe \<Rightarrow> string list" where
  "columns df = map fst (cols df)"

definition nrows :: "dataframe \<Rightarrow> nat" where
  "nrows df = length (idx df)"

definition pd_Series :: "'a list \<Rightarrow> 'a series" where
  \<comment> \<open>\<^verbatim>\<open>pd.Series(values)\<close>: unnamed, with the default index 0..n-1.\<close>
  "pd_Series vs = \<lparr>sname = None, sidx_name = None, sidx = RangeIndex (length vs), svals = vs\<rparr>"

definition series_map :: "('a \<Rightarrow> 'b) \<Rightarrow> 'a series \<Rightarrow> 'b series" where
  \<comment> \<open>Element-wise operations (\<^verbatim>\<open>.astype(str)\<close>, \<^verbatim>\<open>.str.match\<close>, \<^verbatim>\<open>~\<close>) keep name and index.\<close>
  "series_map f s = \<lparr>sname = sname s, sidx_name = sidx_name s, sidx = sidx s, svals = map f (svals s)\<rparr>"

definition reset_index_drop :: "dataframe \<Rightarrow> dataframe" where
  \<comment> \<open>\<^verbatim>\<open>df.reset_index(drop=True)\<close>: a new frame with the index 0..n-1.\<close>
  "reset_index_drop df = df\<lparr>idx_name := None, idx := RangeIndex (length (idx df))\<rparr>"


section \<open>ingest.py: cleaning\<close>

definition isspace :: "char \<Rightarrow> bool" where
  \<comment> \<open>The ASCII characters Python's \<^verbatim>\<open>str.isspace\<close> accepts.\<close>
  "isspace c = (c \<in> set [CHR 0x09, CHR 0x0A, CHR 0x0B, CHR 0x0C, CHR 0x0D,
                          CHR 0x1C, CHR 0x1D, CHR 0x1E, CHR 0x1F, CHR 0x20])"

definition strip :: "string \<Rightarrow> string" where
  "strip s = rev (dropWhile isspace (rev (dropWhile isspace s)))"

definition str_match_Unnamed :: "string \<Rightarrow> bool" where
  \<comment> \<open>\<^verbatim>\<open>.str.match(r"^Unnamed")\<close>: the name starts with \<^verbatim>\<open>Unnamed\<close>.\<close>
  "str_match_Unnamed s = (take 7 s = ''Unnamed'')"

definition get_indexer :: "cell list \<Rightarrow> cell \<Rightarrow> nat option" where
  \<comment> \<open>Position of a label in an index; None is pandas' -1.\<close>
  "get_indexer ix l = (if l \<in> set ix then Some (length (takeWhile (\<lambda>y. y \<noteq> l) ix)) else None)"

definition check_bool_indexer :: "cell list \<Rightarrow> bool series \<Rightarrow> exn + bool list" where
  \<comment> \<open>pandas.core.indexing.check_bool_indexer: a boolean Series used as an indexer is
      aligned by its index labels with the labels of the indexed axis, and a label of
      the axis it has no entry for makes it unalignable.\<close>
  "check_bool_indexer labels key =
     (if sidx key = labels then Inr (svals key)
      else if list_ex (\<lambda>l. get_indexer (sidx key) l = None) labels then Inl IndexingError
      else Inr (map (\<lambda>l. svals key ! the (get_indexer (sidx key) l)) labels))"

definition select_columns :: "dataframe \<Rightarrow> bool list \<Rightarrow> dataframe" where
  "select_columns df m = df\<lparr>cols := map snd (filter fst (zip m (cols df)))\<rparr>"

definition loc_columns_series :: "dataframe \<Rightarrow> bool series \<Rightarrow> exn + dataframe" where
  \<comment> \<open>\<^verbatim>\<open>df.loc[:, key]\<close> with a boolean Series as key.\<close>
  "loc_columns_series df key =
     (case check_bool_indexer (map Str (columns df)) key of
        Inl e \<Rightarrow> Inl e
      | Inr m \<Rightarrow> Inr (select_columns df m))"

definition loc_columns_array :: "dataframe \<Rightarrow> bool list \<Rightarrow> dataframe" where
  \<comment> \<open>\<^verbatim>\<open>df.loc[:, key]\<close> with a boolean array as key (\<^verbatim>\<open>Index.str.match\<close> returns an
      array of the length of the axis): positional, nothing to align.\<close>
  "loc_columns_array df m = select_columns df m"

definition set_columns :: "dataframe \<Rightarrow> string list \<Rightarrow> dataframe" where
  \<comment> \<open>\<^verbatim>\<open>df.columns = names\<close>, with as many names as columns.\<close>
  "set_columns df names = df\<lparr>cols := zip names (map snd (cols df))\<rparr>"

definition clean_columns :: "dataframe \<Rightarrow> dataframe" where
  \<comment> \<open>ingest.py line 177, \<^verbatim>\<open>df.columns = [str(c).strip() for c in df.columns]\<close>:
      an assignment to the argument itself.\<close>
  "clean_columns df = set_columns df (map strip (columns df))"

definition clean :: "dataframe \<Rightarrow> exn + dataframe" where
  \<comment> \<open>ingest.py \<^verbatim>\<open>_clean\<close>, lines 177-179.\<close>
  "clean df =
     (let df1 = clean_columns df;
          mask = series_map Not (series_map str_match_Unnamed (pd_Series (columns df1)))
      in case loc_columns_series df1 mask of
           Inl e \<Rightarrow> Inl e
         | Inr df2 \<Rightarrow> Inr (reset_index_drop df2))"

definition app_drop_unnamed :: "dataframe \<Rightarrow> dataframe" where
  \<comment> \<open>app.py line 104, the same filter written inline:
      \<^verbatim>\<open>df.loc[:, ~df.columns.astype(str).str.match(r"^Unnamed")]\<close>.\<close>
  "app_drop_unnamed df = loc_columns_array df (map Not (map str_match_Unnamed (columns df)))"


section \<open>CSV readers\<close>

datatype encoding = Utf8 | Latin1

text \<open>
  \<^verbatim>\<open>pd.read_csv(io.BytesIO(raw), encoding=enc, sep=sep)\<close> is a parameter of both
  readers: a function from encoding, separator and bytes to a frame or an exception.
\<close>

type_synonym csv_parser = "encoding \<Rightarrow> char \<Rightarrow> string \<Rightarrow> exn + dataframe"

definition encodings :: "encoding list" where
  "encodings = [Utf8, Latin1]"

definition seps :: "char list" where
  "seps = [CHR '','', CHR '';'', CHR 0x09, CHR ''|'']"

fun try_read_csv_seps :: "csv_parser \<Rightarrow> string \<Rightarrow> encoding \<Rightarrow> char list \<Rightarrow> dataframe option" where
  \<comment> \<open>app.py lines 61-65, the inner loop; None: the loop ended without returning.\<close>
  "try_read_csv_seps rd raw enc [] = None"
| "try_read_csv_seps rd raw enc (sep # rest) =
     (case rd enc sep raw of
        Inr df \<Rightarrow> Some df
      | Inl e \<Rightarrow> try_read_csv_seps rd raw enc rest)"

fun try_read_csv_encs :: "csv_parser \<Rightarrow> string \<Rightarrow> encoding list \<Rightarrow> dataframe option" where
  "try_read_csv_encs rd raw [] = None"
| "try_read_csv_encs rd raw (enc # rest) =
     (case try_read_csv_seps rd raw enc seps of
        Some df \<Rightarrow> Some df
      | None \<Rightarrow> try_read_csv_encs rd raw rest)"

definition try_read_csv :: "csv_parser \<Rightarrow> string \<Rightarrow> exn + dataframe" where
  \<comment> \<open>app.py \<^verbatim>\<open>try_read_csv\<close>, lines 57-66.\<close>
  "try_read_csv rd file_bytes =
     (case try_read_csv_encs rd file_bytes encodings of
        Some df \<Rightarrow> Inr df
      | None \<Rightarrow> Inl UnreadableFile)"

fun read_csv_seps :: "csv_parser \<Rightarrow> string \<Rightarrow> encoding \<Rightarrow> char list \<Rightarrow> dataframe option" where
  \<comment> \<open>ingest.py lines 94-101: \<^verbatim>\<open>return _clean(df)\<close> stands inside the \<^verbatim>\<open>try\<close>, so an
      exception of \<^verbatim>\<open>_clean\<close> is caught like one of the parser.\<close>
  "read_csv_seps rd raw enc [] = None"
| "read_csv_seps rd raw enc (sep # rest) =
     (case rd enc sep raw of
        Inr df \<Rightarrow> (case clean df of
                     Inr out \<Rightarrow> Some out
                   | Inl e \<Rightarrow> read_csv_seps rd raw enc rest)
      | Inl e \<Rightarrow> read_csv_seps rd raw enc rest)"

fun read_csv_encs :: "csv_parser \<Rightarrow> string \<Rightarrow> encoding list \<Rightarrow> dataframe option" where
  "read_csv_encs rd raw [] = None"
| "read_csv_encs rd raw (enc # rest) =
     (case read_csv_seps rd raw enc seps of
        Some df \<Rightarrow> Some df
      | None \<Rightarrow> read_csv_encs rd raw rest)"

definition read_csv :: "csv_parser \<Rightarrow> string \<Rightarrow> exn + dataframe" where
  \<comment> \<open>ingest.py \<^verbatim>\<open>_read_csv\<close>, lines 90-103.\<close>
  "read_csv rd raw =
     (case read_csv_encs rd raw encodings of
        Some df \<Rightarrow> Inr df
      | None \<Rightarrow> Inl UnreadableFile)"

definition combos :: "(encoding \<times> char) list" where
  \<comment> \<open>The eight combinations in the order the nested loops visit them.\<close>
  "combos = [(Utf8, CHR '',''), (Utf8, CHR '';''), (Utf8, CHR 0x09), (Utf8, CHR ''|''),
             (Latin1, CHR '',''), (Latin1, CHR '';''), (Latin1, CHR 0x09), (Latin1, CHR ''|'')]"


section \<open>pandas: reading CSV text\<close>

text \<open>
  \<^verbatim>\<open>pd.read_csv\<close> on unquoted text: the bytes are decoded, split into lines (blank
  lines skipped), the first line gives the column names (an empty name becomes
  \<^verbatim>\<open>Unnamed: i\<close>), every other line is one row, a row shorter than the header is
  padded with missing values and a longer one is a parser error. A column whose
  fields are all integer literals or empty is numeric, any other column is text; an
  empty field is the missing value. Quoting, name mangling, the implicit index and
  the inference of floats, booleans and dates are outside this model.
\<close>

definition cont_byte :: "char \<Rightarrow> bool" where
  "cont_byte c = (0x80 \<le> (of_char c :: nat) \<and> (of_char c :: nat) \<le> 0xBF)"

fun utf8_ok :: "string \<Rightarrow> bool" where
  "utf8_ok [] = True"
| "utf8_ok [c] = ((of_char c :: nat) < 0x80)"
| "utf8_ok [c, c1] =
     (if (of_char c :: nat) < 0x80 then utf8_ok [c1]
      else 0xC2 \<le> (of_char c :: nat) \<and> (of_char c :: nat) \<le> 0xDF \<and> cont_byte c1)"
| "utf8_ok [c, c1, c2] =
     (if (of_char c :: nat) < 0x80 then utf8_ok [c1, c2]
      else if 0xC2 \<le> (of_char c :: nat) \<and> (of_char c :: nat) \<le> 0xDF
        then cont_byte c1 \<and> utf8_ok [c2]
      else 0xE0 \<le> (of_char c :: nat) \<and> (of_char c :: nat) \<le> 0xEF \<and> cont_byte c1 \<and> cont_byte c2
           \<and> (if (of_char c :: nat) = 0xE0 then 0xA0 \<le> (of_char c1 :: nat) else True)
           \<and> (if (of_char c :: nat) = 0xED then (of_char c1 :: nat) \<le> 0x9F else True))"
| "utf8_ok (c # c1 # c2 # c3 # r) =
     (if (of_char c :: nat) < 0x80 then utf8_ok (c1 # c2 # c3 # r)
      else if 0xC2 \<le> (of_char c :: nat) \<and> (of_char c :: nat) \<le> 0xDF
        then cont_byte c1 \<and> utf8_ok (c2 # c3 # r)
      else if 0xE0 \<le> (of_char c :: nat) \<and> (of_char c :: nat) \<le> 0xEF
        then cont_byte c1 \<and> cont_byte c2
           \<and> (if (of_char c :: nat) = 0xE0 then 0xA0 \<le> (of_char c1 :: nat) else True)
           \<and> (if (of_char c :: nat) = 0xED then (of_char c1 :: nat) \<le> 0x9F else True)
           \<and> utf8_ok (c3 # r)
      else 0xF0 \<le> (of_char c :: nat) \<and> (of_char c :: nat) \<le> 0xF4
           \<and> cont_byte c1 \<and> cont_byte c2 \<and> cont_byte c3
           \<and> (if (of_char c :: nat) = 0xF0 then 0x90 \<le> (of_char c1 :: nat) else True)
           \<and> (if (of_char c :: nat) = 0xF4 then (of_char c1 :: nat) \<le> 0x8F else True)
           \<and> utf8_ok r)"

definition latin1_char :: "char \<Rightarrow> string" where
  \<comment> \<open>A latin-1 byte is the code point of that number.\<close>
  "latin1_char c =
     (if (of_char c :: nat) < 0x80 then [c]
      else [char_of (0xC0 + (of_char c :: nat) div 64), char_of (0x80 + (of_char c :: nat) mod 64)])"

definition decode :: "encoding \<Rightarrow> string \<Rightarrow> exn + string" where
  "decode enc raw =
     (case enc of
        Utf8 \<Rightarrow> (if utf8_ok raw then Inr raw else Inl UnicodeDecodeError)
      | Latin1 \<Rightarrow> Inr (concat (map latin1_char raw)))"

fun split_on :: "char \<Rightarrow> string \<Rightarrow> string list" where
  "split_on sep [] = [[]]"
| "split_on sep (c # cs) =
     (if c = sep then [] # split_on sep cs
      else (case split_on sep cs of
              w # ws \<Rightarrow> (c # w) # ws
            | [] \<Rightarrow> [[c]]))"

definition drop_cr :: "string \<Rightarrow> string" where
  "drop_cr l = (if l \<noteq> [] \<and> last l = CHR 0x0D then butlast l else l)"

fun show_nat :: "nat \<Rightarrow> string" where
  "show_nat n = (if n < 10 then [char_of (48 + n)] else show_nat (n div 10) @ [char_of (48 + n mod 10)])"

definition header_names :: "string list \<Rightarrow> string list" where
  "header_names hs = map (\<lambda>p. if snd p = [] then ''Unnamed: '' @ show_nat (fst p) else snd p) (enumerate 0 hs)"

definition is_digit :: "char \<Rightarrow> bool" where
  "is_digit c = (48 \<le> (of_char c :: nat) \<and> (of_char c :: nat) \<le> 57)"

definition digits_val :: "string \<Rightarrow> nat" where
  "digits_val s = foldl (\<lambda>a c. 10 * a + ((of_char c :: nat) - 48)) 0 s"

definition parse_digits :: "string \<Rightarrow> nat option" where
  "parse_digits s = (if s \<noteq> [] \<and> list_all is_digit s then Some (digits_val s) else None)"

definition parse_int :: "string \<Rightarrow> int option" where
  "parse_int s =
     (case s of
        [] \<Rightarrow> None
      | c # r \<Rightarrow>
          if c = CHR ''-'' then map_option (\<lambda>n. - int n) (parse_digits r)
          else if c = CHR ''+'' then map_option int (parse_digits r)
          else map_option int (parse_digits s))"

definition int_or_empty :: "string \<Rightarrow> bool" where
  "int_or_empty f = (case parse_int f of Some n \<Rightarrow> True | None \<Rightarrow> f = [])"

definition infer_column :: "string list \<Rightarrow> cell list" where
  "infer_column fs =
     (if list_all int_or_empty fs
      then map (\<lambda>f. case parse_int f of Some n \<Rightarrow> Num (of_int n) | None \<Rightarrow> NA) fs
      else map (\<lambda>f. if f = [] then NA else Str f) fs)"

definition field :: "string list \<Rightarrow> nat \<Rightarrow> string" where
  "field r j = (if j < length r then r ! j else [])"

definition pd_read_csv :: "encoding \<Rightarrow> char \<Rightarrow> string \<Rightarrow> exn + dataframe" where
  "pd_read_csv enc sep raw =
     (case decode enc raw of
        Inl e \<Rightarrow> Inl e
      | Inr text \<Rightarrow>
          (case filter (\<lambda>l. l \<noteq> []) (map drop_cr (split_on (CHR 0x0A) text)) of
             [] \<Rightarrow> Inl EmptyDataError
           | header # body \<Rightarrow>
               (let names = header_names (split_on sep header);
                    rows = map (split_on sep) body
                in if list_ex (\<lambda>r. length names < length r) rows then Inl ParserError
                   else Inr \<lparr>cols = map (\<lambda>p. (snd p, infer_column (map (\<lambda>r. field r (fst p)) rows)))
                                        (enumerate 0 names),
                             idx_name = None,
                             idx = RangeIndex (length rows)\<rparr>)))"


section \<open>pandas: grouping and reducing\<close>

text \<open>
  The order of \<^verbatim>\<open>groupby\<close> keys and of \<^verbatim>\<open>sort_values\<close>: numbers ascending, then
  timestamps, then texts by code point, the missing value last. (Within one column
  the readers produce one kind of value besides the missing one.)
\<close>

fun cell_key :: "cell \<Rightarrow> nat \<times> rat \<times> string" where
  "cell_key (Num r) = (0, r, [])"
| "cell_key (Ts t) = (1, of_int t, [])"
| "cell_key (Str s) = (2, 0, s)"
| "cell_key NA = (3, 0, [])"

definition get_col :: "dataframe \<Rightarrow> string \<Rightarrow> exn + cell list" where
  \<comment> \<open>\<^verbatim>\<open>df[c]\<close>: the column of that name or KeyError (the readers give distinct names).\<close>
  "get_col df c = (case map_of (cols df) c of None \<Rightarrow> Inl (KeyError c) | Some vs \<Rightarrow> Inr vs)"

definition group_keys :: "cell list \<Rightarrow> cell list" where
  \<comment> \<open>\<^verbatim>\<open>groupby(x, dropna=False)\<close> with its default \<^verbatim>\<open>sort=True\<close>: the distinct key values
      in ascending order, the missing value being a key of its own, last.\<close>
  "group_keys ks = sort_key cell_key (remdups ks)"

definition pd_groupby_size :: "dataframe \<Rightarrow> string \<Rightarrow> exn + cell series" where
  \<comment> \<open>\<^verbatim>\<open>df.groupby(x, dropna=False).size()\<close>: an unnamed Series indexed by the keys.\<close>
  "pd_groupby_size df x =
     (case get_col df x of
        Inl e \<Rightarrow> Inl e
      | Inr ks \<Rightarrow> Inr \<lparr>sname = None, sidx_name = Some x, sidx = group_keys ks,
                      svals = map (\<lambda>k. Num (of_nat (count_list ks k))) (group_keys ks)\<rparr>)"

fun numeric_values :: "cell list \<Rightarrow> exn + rat list" where
  \<comment> \<open>The numbers of a column, missing values skipped; the reductions below are
      modelled on numeric columns (the only ones the app offers as value column).\<close>
  "numeric_values [] = Inr []"
| "numeric_values (Num r # cs) = (case numeric_values cs of Inl e \<Rightarrow> Inl e | Inr rs \<Rightarrow> Inr (r # rs))"
| "numeric_values (NA # cs) = numeric_values cs"
| "numeric_values (Str s # cs) = Inl PdTypeError"
| "numeric_values (Ts t # cs) = Inl PdTypeError"

definition median :: "rat list \<Rightarrow> rat" where
  "median rs =
     (let s = sort rs; n = length s
      in if even n then (s ! (n div 2 - 1) + s ! (n div 2)) / 2 else s ! (n div 2))"

definition reduce_nums :: "string \<Rightarrow> rat list \<Rightarrow> exn + cell" where
  \<comment> \<open>The named pandas reduction; of no values, sum is 0 and the others are missing.\<close>
  "reduce_nums func rs =
     (if func = ''sum'' then Inr (Num (sum_list rs))
      else if func = ''count'' then Inr (Num (of_nat (length rs)))
      else if func \<notin> set [''mean'', ''median'', ''max'', ''min''] then Inl PdValueError
      else if rs = [] then Inr NA
      else if func = ''mean'' then Inr (Num (sum_list rs / of_nat (length rs)))
      else if func = ''median'' then Inr (Num (median rs))
      else if func = ''max'' then Inr (Num (fold max (tl rs) (hd rs)))
      else Inr (Num (fold min (tl rs) (hd rs))))"

definition pd_reduce :: "string \<Rightarrow> cell list \<Rightarrow> exn + cell" where
  "pd_reduce func vs = (case numeric_values vs of Inl e \<Rightarrow> Inl e | Inr rs \<Rightarrow> reduce_nums func rs)"

fun collect :: "(exn + 'a) list \<Rightarrow> exn + 'a list" where
  "collect [] = Inr []"
| "collect (Inl e # rs) = Inl e"
| "collect (Inr v # rs) = (case collect rs of Inl e \<Rightarrow> Inl e | Inr vs \<Rightarrow> Inr (v # vs))"

definition group_values :: "cell list \<Rightarrow> cell list \<Rightarrow> cell \<Rightarrow> cell list" where
  "group_values ks vs k = map snd (filter (\<lambda>p. fst p = k) (zip ks vs))"

definition pd_groupby_agg :: "dataframe \<Rightarrow> string \<Rightarrow> string \<Rightarrow> string \<Rightarrow> exn + cell series" where
  \<comment> \<open>\<^verbatim>\<open>df.groupby(x, dropna=False)[y].agg(func)\<close>: a Series named y indexed by the keys.\<close>
  "pd_groupby_agg df x y func =
     (case get_col df x of
        Inl e \<Rightarrow> Inl e
      | Inr ks \<Rightarrow>
          (case get_col df y of
             Inl e \<Rightarrow> Inl e
           | Inr vs \<Rightarrow>
               (case collect (map (\<lambda>k. pd_reduce func (group_values ks vs k)) (group_keys ks)) of
                  Inl e \<Rightarrow> Inl e
                | Inr rs \<Rightarrow> Inr \<lparr>sname = Some y, sidx_name = Some x,
                                sidx = group_keys ks, svals = rs\<rparr>)))"

definition series_reset_index :: "cell series \<Rightarrow> string \<Rightarrow> exn + dataframe" where
  \<comment> \<open>\<^verbatim>\<open>Series.reset_index(name=nm)\<close>, and \<^verbatim>\<open>reset_index()\<close> with nm the Series' own name:
      the values become the column nm, then the index is inserted as first column
      under its name (\<^verbatim>\<open>index\<close> when unnamed); \<^verbatim>\<open>DataFrame.insert\<close> refuses a name the
      frame already has.\<close>
  "series_reset_index s nm =
     (let iname = (case sidx_name s of Some n \<Rightarrow> n | None \<Rightarrow> ''index'')
      in if iname = nm then Inl PdValueError
         else Inr \<lparr>cols = [(iname, sidx s), (nm, svals s)], idx_name = None,
                   idx = RangeIndex (length (sidx s))\<rparr>)"

definition series_name :: "'a series \<Rightarrow> string" where
  "series_name s = (case sname s of Some n \<Rightarrow> n | None \<Rightarrow> ''0'')"

definition rename_columns :: "dataframe \<Rightarrow> (string \<rightharpoonup> string) \<Rightarrow> dataframe" where
  \<comment> \<open>\<^verbatim>\<open>df.rename(columns=m)\<close>: every name the dict has is replaced, all at once.\<close>
  "rename_columns df m = df\<lparr>cols := map (\<lambda>c. (case m (fst c) of Some n \<Rightarrow> n | None \<Rightarrow> fst c, snd c)) (cols df)\<rparr>"


section \<open>utils.py: aggregate\<close>

definition str_media :: string where
  "str_media = [CHR ''m'', CHR 0xC3, CHR 0xA9, CHR ''d'', CHR ''i'', CHR ''a'']"

definition str_maximo :: string where
  "str_maximo = [CHR ''m'', CHR 0xC3, CHR 0xA1, CHR ''x'', CHR ''i'', CHR ''m'', CHR ''o'']"

definition str_minimo :: string where
  "str_minimo = [CHR ''m'', CHR 0xC3, CHR 0xAD, CHR ''n'', CHR ''i'', CHR ''m'', CHR ''o'']"

definition how_map :: "(string \<times> string) list" where
  "how_map = [(''soma'', ''sum''), (str_media, ''mean''), (''contagem'', ''count''),
              (''mediana'', ''median''), (str_maximo, ''max''), (str_minimo, ''min'')]"

definition how_map_get :: "string \<Rightarrow> string \<Rightarrow> string" where
  \<comment> \<open>\<^verbatim>\<open>how_map.get(how, default)\<close>\<close>
  "how_map_get how d = (case map_of how_map how of Some f \<Rightarrow> f | None \<Rightarrow> d)"

definition aggregate_count :: "dataframe \<Rightarrow> string \<Rightarrow> exn + dataframe" where
  \<comment> \<open>utils.py lines 53-55.\<close>
  "aggregate_count df x =
     (case pd_groupby_size df x of
        Inl e \<Rightarrow> Inl e
      | Inr s \<Rightarrow>
          (case series_reset_index s ''valor'' of
             Inl e \<Rightarrow> Inl e
           | Inr out \<Rightarrow> Inr (rename_columns out [x \<mapsto> ''x''])))"

definition aggregate_reduce :: "dataframe \<Rightarrow> string \<Rightarrow> string \<Rightarrow> string \<Rightarrow> exn + dataframe" where
  \<comment> \<open>utils.py lines 56-59.\<close>
  "aggregate_reduce df x y how =
     (let func = how_map_get how ''sum''
      in case pd_groupby_agg df x y func of
           Inl e \<Rightarrow> Inl e
         | Inr s \<Rightarrow>
             (case series_reset_index s (series_name s) of
                Inl e \<Rightarrow> Inl e
              | Inr out \<Rightarrow> Inr (rename_columns out [x \<mapsto> ''x'', y \<mapsto> ''valor''])))"

definition aggregate :: "dataframe \<Rightarrow> string \<Rightarrow> string option \<Rightarrow> string \<Rightarrow> exn + dataframe" where
  \<comment> \<open>utils.py \<^verbatim>\<open>aggregate\<close>, lines 39-59.\<close>
  "aggregate df x y how =
     (case y of
        None \<Rightarrow> aggregate_count df x
      | Some yc \<Rightarrow> if how = ''contagem'' then aggregate_count df x
                   else aggregate_reduce df x yc how)"


section \<open>pandas: calendar periods and resampling\<close>

text \<open>
  The five frequencies of the docstring of \<^verbatim>\<open>time_aggregate\<close> (\<^verbatim>\<open>D\<close>, \<^verbatim>\<open>W\<close>, \<^verbatim>\<open>M\<close>,
  \<^verbatim>\<open>Q\<close>, \<^verbatim>\<open>Y\<close>). A timestamp falls into the period of its calendar date. pandas
  labels a day by its midnight, a week by the Sunday that ends it, a month, quarter
  and year by its last day. Periods are numbered consecutively.
\<close>

datatype freq = Day | Week | Month | Quarter | Year

definition ns_per_day :: int where
  "ns_per_day = 86400000000000"

definition day_of :: "int \<Rightarrow> int" where
  "day_of t = t div ns_per_day"

definition month_of_day :: "int \<Rightarrow> int" where
  \<comment> \<open>Months since year 0 of the proleptic Gregorian date of a day number
      (days since 1970-01-01): 12 * year + (month - 1).\<close>
  "month_of_day d =
     (let z = d + 719468;
          era = z div 146097;
          doe = z mod 146097;
          yoe = (doe - doe div 1460 + doe div 36524 - doe div 146096) div 365;
          doy = doe - (365 * yoe + yoe div 4 - yoe div 100);
          mp = (5 * doy + 2) div 153;
          m = (if mp < 10 then mp + 3 else mp - 9);
          y = yoe + era * 400 + (if m \<le> 2 then 1 else 0)
      in 12 * y + (m - 1))"

definition first_day_of_month :: "int \<Rightarrow> int" where
  \<comment> \<open>Day number of the first day of a month given as months since year 0.\<close>
  "first_day_of_month q =
     (let y = q div 12;
          m = q mod 12 + 1;
          y1 = (if m \<le> 2 then y - 1 else y);
          era = y1 div 400;
          yoe = y1 mod 400;
          doy = (153 * (if 2 < m then m - 3 else m + 9) + 2) div 5;
          doe = yoe * 365 + yoe div 4 - yoe div 100 + doy
      in era * 146097 + doe - 719468)"

definition period_of :: "freq \<Rightarrow> int \<Rightarrow> int" where
  "period_of f t =
     (case f of
        Day \<Rightarrow> day_of t
      | Week \<Rightarrow> (day_of t + 3) div 7
      | Month \<Rightarrow> month_of_day (day_of t)
      | Quarter \<Rightarrow> month_of_day (day_of t) div 3
      | Year \<Rightarrow> month_of_day (day_of t) div 12)"

definition period_label :: "freq \<Rightarrow> int \<Rightarrow> int" where
  "period_label f p =
     (case f of
        Day \<Rightarrow> p * ns_per_day
      | Week \<Rightarrow> (7 * p + 3) * ns_per_day
      | Month \<Rightarrow> (first_day_of_month (p + 1) - 1) * ns_per_day
      | Quarter \<Rightarrow> (first_day_of_month (3 * (p + 1)) - 1) * ns_per_day
      | Year \<Rightarrow> (first_day_of_month (12 * (p + 1)) - 1) * ns_per_day)"

fun is_ts_or_na :: "cell \<Rightarrow> bool" where
  "is_ts_or_na (Ts t) = True"
| "is_ts_or_na NA = True"
| "is_ts_or_na (Num r) = False"
| "is_ts_or_na (Str s) = False"

definition is_datetime64 :: "cell list \<Rightarrow> bool" where
  \<comment> \<open>\<^verbatim>\<open>pd.api.types.is_datetime64_any_dtype\<close>: the values are timestamps or NaT.\<close>
  "is_datetime64 vs = list_all is_ts_or_na vs"

fun timestamps :: "cell list \<Rightarrow> int list" where
  "timestamps [] = []"
| "timestamps (Ts t # cs) = t # timestamps cs"
| "timestamps (Num r # cs) = timestamps cs"
| "timestamps (Str s # cs) = timestamps cs"
| "timestamps (NA # cs) = timestamps cs"

definition resample_periods :: "freq \<Rightarrow> cell list \<Rightarrow> exn + int list" where
  \<comment> \<open>The buckets of \<^verbatim>\<open>resample(freq)\<close>: every period from the one of the earliest
      timestamp to the one of the latest. Rows without a timestamp (NaT) are in no
      bucket. An index that is not of timestamps is a TypeError, an index with rows
      but no timestamp at all gives no range to build (ValueError).\<close>
  "resample_periods f ix =
     (if \<not> is_datetime64 ix then Inl PdTypeError
      else if ix = [] then Inr []
      else (case map (period_of f) (timestamps ix) of
              [] \<Rightarrow> Inl PdValueError
            | p # ps \<Rightarrow> Inr [fold min ps p .. fold max ps p]))"

fun in_period :: "freq \<Rightarrow> int \<Rightarrow> cell \<Rightarrow> bool" where
  "in_period f p (Ts t) = (period_of f t = p)"
| "in_period f p (Num r) = False"
| "in_period f p (Str s) = False"
| "in_period f p NA = False"

definition pd_resample_size :: "dataframe \<Rightarrow> freq \<Rightarrow> exn + cell series" where
  \<comment> \<open>\<^verbatim>\<open>df.resample(freq).size()\<close> on a frame indexed by timestamps.\<close>
  "pd_resample_size df f =
     (case resample_periods f (idx df) of
        Inl e \<Rightarrow> Inl e
      | Inr ps \<Rightarrow> Inr \<lparr>sname = None, sidx_name = idx_name df,
                      sidx = map (\<lambda>p. Ts (period_label f p)) ps,
                      svals = map (\<lambda>p. Num (of_nat (length (filter (in_period f p) (idx df))))) ps\<rparr>)"

definition bucket_values :: "freq \<Rightarrow> cell series \<Rightarrow> int \<Rightarrow> cell list" where
  "bucket_values f s p = map snd (filter (\<lambda>q. in_period f p (fst q)) (zip (sidx s) (svals s)))"

definition pd_resample_agg :: "cell series \<Rightarrow> freq \<Rightarrow> string \<Rightarrow> exn + cell series" where
  \<comment> \<open>\<^verbatim>\<open>series.resample(freq).agg(func)\<close> on a Series indexed by timestamps.\<close>
  "pd_resample_agg s f func =
     (case resample_periods f (sidx s) of
        Inl e \<Rightarrow> Inl e
      | Inr ps \<Rightarrow>
          (case collect (map (\<lambda>p. pd_reduce func (bucket_values f s p)) ps) of
             Inl e \<Rightarrow> Inl e
           | Inr rs \<Rightarrow> Inr \<lparr>sname = sname s, sidx_name = sidx_name s,
                           sidx = map (\<lambda>p. Ts (period_label f p)) ps, svals = rs\<rparr>))"

definition set_item :: "dataframe \<Rightarrow> string \<Rightarrow> cell list \<Rightarrow> dataframe" where
  \<comment> \<open>\<^verbatim>\<open>df[c] = values\<close>: the column is replaced, or appended when new.\<close>
  "set_item df c vs =
     (if c \<in> set (columns df)
      then df\<lparr>cols := map (\<lambda>p. if fst p = c then (c, vs) else p) (cols df)\<rparr>
      else df\<lparr>cols := cols df @ [(c, vs)]\<rparr>)"

definition set_index :: "dataframe \<Rightarrow> string \<Rightarrow> exn + dataframe" where
  \<comment> \<open>\<^verbatim>\<open>df.set_index(c)\<close>: a new frame, the column moved into the index.\<close>
  "set_index df c =
     (case get_col df c of
        Inl e \<Rightarrow> Inl e
      | Inr vs \<Rightarrow> Inr \<lparr>cols = filter (\<lambda>p. fst p \<noteq> c) (cols df), idx_name = Some c, idx = vs\<rparr>)"

definition get_series :: "dataframe \<Rightarrow> string \<Rightarrow> exn + cell series" where
  \<comment> \<open>\<^verbatim>\<open>df[y]\<close> as a Series: named y, with the index of the frame.\<close>
  "get_series df y =
     (case get_col df y of
        Inl e \<Rightarrow> Inl e
      | Inr vs \<Rightarrow> Inr \<lparr>sname = Some y, sidx_name = idx_name df, sidx = idx df, svals = vs\<rparr>)"

definition argsort :: "cell list \<Rightarrow> nat list" where
  \<comment> \<open>The row positions in ascending order of their keys.\<close>
  "argsort ks = sort_key (\<lambda>i. cell_key (ks ! i)) [0..<length ks]"

definition pd_sort_values :: "dataframe \<Rightarrow> string \<Rightarrow> exn + dataframe" where
  \<comment> \<open>\<^verbatim>\<open>df.sort_values(c)\<close>: a new frame, the rows in ascending order of column c,
      missing values last (rows with equal keys are kept in their order here).\<close>
  "pd_sort_values df c =
     (case get_col df c of
        Inl e \<Rightarrow> Inl e
      | Inr ks \<Rightarrow>
          (let perm = argsort ks
           in Inr \<lparr>cols = map (\<lambda>p. (fst p, map (\<lambda>i. snd p ! i) perm)) (cols df),
                    idx_name = idx_name df,
                    idx = map (\<lambda>i. idx df ! i) perm\<rparr>))"


section \<open>utils.py: time_aggregate\<close>

text \<open>
  \<^verbatim>\<open>pd.to_datetime(series, errors="coerce")\<close>, which parses numbers and texts into
  timestamps and turns what it cannot parse into NaT, is a parameter \<open>to_datetime\<close>.
\<close>

definition ensure_datetime :: "(cell list \<Rightarrow> cell list) \<Rightarrow> cell list \<Rightarrow> cell list" where
  \<comment> \<open>utils.py lines 92-96.\<close>
  "ensure_datetime to_datetime series =
     (if is_datetime64 series then series else to_datetime series)"

definition time_count :: "dataframe \<Rightarrow> freq \<Rightarrow> exn + dataframe" where
  \<comment> \<open>utils.py line 119.\<close>
  "time_count tmp freq =
     (case set_index tmp ''_dt'' of
        Inl e \<Rightarrow> Inl e
      | Inr ti \<Rightarrow>
          (case pd_resample_size ti freq of
             Inl e \<Rightarrow> Inl e
           | Inr s \<Rightarrow> series_reset_index s ''valor''))"

definition time_reduce :: "dataframe \<Rightarrow> string \<Rightarrow> string \<Rightarrow> freq \<Rightarrow> exn + dataframe" where
  \<comment> \<open>utils.py lines 121-122.\<close>
  "time_reduce tmp y how freq =
     (let func = how_map_get how ''sum''
      in case set_index tmp ''_dt'' of
           Inl e \<Rightarrow> Inl e
         | Inr ti \<Rightarrow>
             (case get_series ti y of
                Inl e \<Rightarrow> Inl e
              | Inr sy \<Rightarrow>
                  (case pd_resample_agg sy freq func of
                     Inl e \<Rightarrow> Inl e
                   | Inr s \<Rightarrow> series_reset_index s ''valor'')))"

definition time_finish :: "dataframe \<Rightarrow> exn + dataframe" where
  \<comment> \<open>utils.py lines 124-127.\<close>
  "time_finish grouped =
     (case pd_sort_values (rename_columns grouped [''_dt'' \<mapsto> ''x'']) ''x'' of
        Inl e \<Rightarrow> Inl e
      | Inr g \<Rightarrow> Inr (reset_index_drop g))"

definition time_grouped :: "dataframe \<Rightarrow> string option \<Rightarrow> string \<Rightarrow> freq \<Rightarrow> exn + dataframe" where
  \<comment> \<open>utils.py lines 118-122.\<close>
  "time_grouped tmp y how freq =
     (case y of
        None \<Rightarrow> time_count tmp freq
      | Some yc \<Rightarrow> if how = ''contagem'' then time_count tmp freq
                   else time_reduce tmp yc how freq)"

definition time_aggregate ::
  "(cell list \<Rightarrow> cell list) \<Rightarrow> dataframe \<Rightarrow> string \<Rightarrow> string option \<Rightarrow> string \<Rightarrow> freq \<Rightarrow> exn + dataframe" where
  \<comment> \<open>utils.py \<^verbatim>\<open>time_aggregate\<close>, lines 99-127.\<close>
  "time_aggregate to_datetime df date_col y how freq =
     (case get_col df date_col of
        Inl e \<Rightarrow> Inl e
      | Inr dates \<Rightarrow>
          (let sdt = ensure_datetime to_datetime dates;
               tmp = set_item df ''_dt'' sdt
           in case time_grouped tmp y how freq of
                Inl e \<Rightarrow> Inl e
              | Inr grouped \<Rightarrow> time_finish grouped))"


section \<open>viz.py: plot_generic\<close>

text \<open>
  A figure records which plotly express function is called on which data with which
  axes; titles and styling are left out. plotly's own checking of its arguments is
  not part of the model.
\<close>

datatype figure =
    PxBar dataframe string "string option" "string option"
  | PxLine dataframe string string "string option"
  | PxPie dataframe string string
  | PxHistogram dataframe string "string option"
  | PxScatter dataframe string string "string option"

definition sort_if_datetime :: "dataframe \<Rightarrow> bool \<Rightarrow> exn + dataframe" where
  \<comment> \<open>viz.py lines 10-12; the sorted frame is bound to the local name only.\<close>
  "sort_if_datetime df aggregated =
     (if aggregated \<and> ''x'' \<in> set (columns df) then
        (case get_col df ''x'' of
           Inl e \<Rightarrow> Inl e
         | Inr xs \<Rightarrow>
             if is_datetime64 xs then
               (case pd_sort_values df ''x'' of
                  Inl e \<Rightarrow> Inl e
                | Inr d \<Rightarrow> Inr (reset_index_drop d))
             else Inr df)
      else Inr df)"

definition grouped_sum :: "dataframe \<Rightarrow> string \<Rightarrow> string \<Rightarrow> exn + dataframe" where
  \<comment> \<open>\<^verbatim>\<open>df.groupby(x, dropna=False)[y].sum().reset_index()\<close>\<close>
  "grouped_sum df x y =
     (case pd_groupby_agg df x y ''sum'' of
        Inl e \<Rightarrow> Inl e
      | Inr s \<Rightarrow> series_reset_index s (series_name s))"

definition value_counts_frame :: "dataframe \<Rightarrow> string \<Rightarrow> exn + dataframe" where
  \<comment> \<open>\<^verbatim>\<open>df[x].value_counts(dropna=False).rename_axis(x).reset_index(name="count")\<close>:
      the distinct values by descending frequency.\<close>
  "value_counts_frame df x =
     (case get_col df x of
        Inl e \<Rightarrow> Inl e
      | Inr ks \<Rightarrow>
          (let keys = sort_key (\<lambda>k. - int (count_list ks k)) (rev (remdups (rev ks)))
           in series_reset_index
                \<lparr>sname = Some ''count'', sidx_name = Some x, sidx = keys,
                 svals = map (\<lambda>k. Num (of_nat (count_list ks k))) keys\<rparr> ''count''))"

definition plot_kind ::
  "string \<Rightarrow> dataframe \<Rightarrow> string \<Rightarrow> string option \<Rightarrow> string option \<Rightarrow> bool \<Rightarrow> exn + figure" where
  \<comment> \<open>viz.py lines 14-48.\<close>
  "plot_kind tipo df x y color aggregated =
     (if tipo = ''Barras'' then
        (if aggregated then Inr (PxBar df ''x'' (Some ''valor'') color)
         else case y of
                None \<Rightarrow> Inr (PxBar df x None color)
              | Some yc \<Rightarrow> (case grouped_sum df x yc of
                             Inl e \<Rightarrow> Inl e
                           | Inr grouped \<Rightarrow> Inr (PxBar grouped x (Some yc) color)))
      else if tipo = ''Linha'' then
        (if aggregated then Inr (PxLine df ''x'' ''valor'' color)
         else case y of
                None \<Rightarrow> Inl InvalidChartRequest
              | Some yc \<Rightarrow> (case grouped_sum df x yc of
                             Inl e \<Rightarrow> Inl e
                           | Inr grouped \<Rightarrow> Inr (PxLine grouped x yc color)))
      else if tipo = ''Pizza'' then
        (if aggregated then Inr (PxPie df ''x'' ''valor'')
         else case y of
                None \<Rightarrow> (case value_counts_frame df x of
                           Inl e \<Rightarrow> Inl e
                         | Inr counts \<Rightarrow> Inr (PxPie counts x ''count''))
              | Some yc \<Rightarrow> (case grouped_sum df x yc of
                             Inl e \<Rightarrow> Inl e
                           | Inr grouped \<Rightarrow> Inr (PxPie grouped x yc)))
      else if tipo = ''Histograma'' then Inr (PxHistogram df x color)
      else if tipo = ''Scatter'' then
        (case y of
           None \<Rightarrow> Inl InvalidChartRequest
         | Some yc \<Rightarrow> Inr (PxScatter df x yc color))
      else Inl InvalidChartRequest)"

definition plot_generic ::
  "string \<Rightarrow> dataframe \<Rightarrow> string \<Rightarrow> string option \<Rightarrow> string option \<Rightarrow> bool \<Rightarrow> exn + figure" where
  \<comment> \<open>viz.py \<^verbatim>\<open>plot_generic\<close>, lines 4-48.\<close>
  "plot_generic tipo df x y color aggregated =
     (case sort_if_datetime df aggregated of
        Inl e \<Rightarrow> Inl e
      | Inr df1 \<Rightarrow> plot_kind tipo df1 x y color aggregated)"



section \<open>utils.py: infer_types and basic_stats\<close>

fun is_num_or_na :: "cell \<Rightarrow> bool" where
  "is_num_or_na (Num r) = True"
| "is_num_or_na NA = True"
| "is_num_or_na (Ts t) = False"
| "is_num_or_na (Str s) = False"

definition is_numeric_dtype :: "cell list \<Rightarrow> bool" where
  "is_numeric_dtype vs = list_all is_num_or_na vs"

definition infer_types :: "dataframe \<Rightarrow> string list \<times> string list" where
  \<comment> \<open>utils.py lines 10-12: (numeric, text).\<close>
  "infer_types df =
     (let numeric = map fst (filter (\<lambda>c. is_numeric_dtype (snd c)) (cols df));
          text = filter (\<lambda>c. c \<notin> set numeric) (columns df)
      in (numeric, text))"

record stats =
  shape :: "nat \<times> nat"
  nulls_total :: nat
  duplicates :: nat

definition frame_rows :: "dataframe \<Rightarrow> cell list list" where
  "frame_rows df = map (\<lambda>i. map (\<lambda>c. snd c ! i) (cols df)) [0..<nrows df]"

definition basic_stats :: "dataframe \<Rightarrow> stats" where
  \<comment> \<open>utils.py lines 22-27: shape, nulls_total and duplicates. The memory estimate,
      the float table of \<^verbatim>\<open>describe\<close> and the frequency tables over values printed
      as text are not modelled.\<close>
  "basic_stats df =
     \<lparr>shape = (nrows df, length (cols df)),
      nulls_total = sum_list (map (\<lambda>c. count_list (snd c) NA) (cols df)),
      duplicates = length (frame_rows df) - length (remdups (frame_rows df))\<rparr>"


section \<open>The stages on a store of frames\<close>

text \<open>
  To see what a call does to the frame object it is given, frames live in a store
  and are passed by reference. A pandas call that returns a new frame allocates; a
  statement that works in place (\<^verbatim>\<open>df.columns = ...\<close>, \<^verbatim>\<open>tmp["_dt"] = ...\<close>,
  \<^verbatim>\<open>rename(..., inplace=True)\<close>) overwrites the object at its reference. The result
  is the store after the call and the reference of the returned frame.
\<close>

type_synonym store = "dataframe list"

definition alloc :: "store \<Rightarrow> dataframe \<Rightarrow> store \<times> nat" where
  "alloc st v = (st @ [v], length st)"

definition result_of :: "store \<times> (exn + nat) \<Rightarrow> exn + dataframe" where
  "result_of r = (case snd r of Inl e \<Rightarrow> Inl e | Inr out \<Rightarrow> Inr (fst r ! out))"

definition clean_st :: "store \<Rightarrow> nat \<Rightarrow> store \<times> (exn + nat)" where
  \<comment> \<open>ingest.py \<^verbatim>\<open>_clean\<close>: line 177 assigns to the columns of the argument.\<close>
  "clean_st st df =
     (let st1 = st[df := clean_columns (st ! df)];
          mask = series_map Not (series_map str_match_Unnamed (pd_Series (columns (st1 ! df))))
      in case loc_columns_series (st1 ! df) mask of
           Inl e \<Rightarrow> (st1, Inl e)
         | Inr v \<Rightarrow>
             (let (st2, df2) = alloc st1 v;
                  (st3, out) = alloc st2 (reset_index_drop (st2 ! df2))
              in (st3, Inr out)))"

definition aggregate_count_st :: "store \<Rightarrow> nat \<Rightarrow> string \<Rightarrow> store \<times> (exn + nat)" where
  "aggregate_count_st st df x =
     (case pd_groupby_size (st ! df) x of
        Inl e \<Rightarrow> (st, Inl e)
      | Inr s \<Rightarrow>
          (case series_reset_index s ''valor'' of
             Inl e \<Rightarrow> (st, Inl e)
           | Inr v \<Rightarrow>
               (let (st1, out) = alloc st v;
                    st2 = st1[out := rename_columns (st1 ! out) [x \<mapsto> ''x'']]
                in (st2, Inr out))))"

definition aggregate_reduce_st :: "store \<Rightarrow> nat \<Rightarrow> string \<Rightarrow> string \<Rightarrow> string \<Rightarrow> store \<times> (exn + nat)" where
  "aggregate_reduce_st st df x y how =
     (let func = how_map_get how ''sum''
      in case pd_groupby_agg (st ! df) x y func of
           Inl e \<Rightarrow> (st, Inl e)
         | Inr s \<Rightarrow>
             (case series_reset_index s (series_name s) of
                Inl e \<Rightarrow> (st, Inl e)
              | Inr v \<Rightarrow>
                  (let (st1, out) = alloc st v;
                       st2 = st1[out := rename_columns (st1 ! out) [x \<mapsto> ''x'', y \<mapsto> ''valor'']]
                   in (st2, Inr out))))"

definition aggregate_st :: "store \<Rightarrow> nat \<Rightarrow> string \<Rightarrow> string option \<Rightarrow> string \<Rightarrow> store \<times> (exn + nat)" where
  "aggregate_st st df x y how =
     (case y of
        None \<Rightarrow> aggregate_count_st st df x
      | Some yc \<Rightarrow> if how = ''contagem'' then aggregate_count_st st df x
                   else aggregate_reduce_st st df x yc how)"

definition time_aggregate_st ::
  "(cell list \<Rightarrow> cell list) \<Rightarrow> store \<Rightarrow> nat \<Rightarrow> string \<Rightarrow> string option \<Rightarrow> string \<Rightarrow> freq
     \<Rightarrow> store \<times> (exn + nat)" where
  \<comment> \<open>utils.py \<^verbatim>\<open>time_aggregate\<close>: \<^verbatim>\<open>tmp = df.copy()\<close> allocates, \<^verbatim>\<open>tmp["_dt"] = sdt\<close>
      and the rename of \<^verbatim>\<open>grouped\<close> work in place on the new objects.\<close>
  "time_aggregate_st to_datetime st df date_col y how freq =
     (case get_col (st ! df) date_col of
        Inl e \<Rightarrow> (st, Inl e)
      | Inr dates \<Rightarrow>
          (let sdt = ensure_datetime to_datetime dates;
               (st1, tmp) = alloc st (st ! df);
               st2 = st1[tmp := set_item (st1 ! tmp) ''_dt'' sdt]
           in case time_grouped (st2 ! tmp) y how freq of
                Inl e \<Rightarrow> (st2, Inl e)
              | Inr v \<Rightarrow>
                  (let (st3, grouped) = alloc st2 v;
                       st4 = st3[grouped := rename_columns (st3 ! grouped) [''_dt'' \<mapsto> ''x'']]
                   in case pd_sort_values (st4 ! grouped) ''x'' of
                        Inl e \<Rightarrow> (st4, Inl e)
                      | Inr s \<Rightarrow>
                          (let (st5, sorted_ref) = alloc st4 s;
                               (st6, out) = alloc st5 (reset_index_drop (st5 ! sorted_ref))
                           in (st6, Inr out)))))"

definition infer_types_st :: "store \<Rightarrow> nat \<Rightarrow> store \<times> (string list \<times> string list)" where
  \<comment> \<open>\<^verbatim>\<open>infer_types\<close>, \<^verbatim>\<open>basic_stats\<close> and \<^verbatim>\<open>plot_generic\<close> have no in-place statement:
      they read the frame, and what they build is new.\<close>
  "infer_types_st st df = (st, infer_types (st ! df))"

definition basic_stats_st :: "store \<Rightarrow> nat \<Rightarrow> store \<times> stats" where
  "basic_stats_st st df = (st, basic_stats (st ! df))"

definition plot_generic_st ::
  "string \<Rightarrow> store \<Rightarrow> nat \<Rightarrow> string \<Rightarrow> string option \<Rightarrow> string option \<Rightarrow> bool \<Rightarrow> store \<times> (exn + figure)" where
  "plot_generic_st tipo st df x y color aggregated =
     (st, plot_generic tipo (st ! df) x y color aggregated)"

definition unchanged :: "store \<Rightarrow> store \<Rightarrow> bool" where
  \<comment> \<open>Every frame of the store before the call is the same after it.\<close>
  "unchanged st st' = (take (length st) st' = st)"

definition first_seen :: "'a list \<Rightarrow> 'a list" where
  \<comment> \<open>The distinct values of a list in the order of their first occurrence.\<close>
  "first_seen xs = rev (remdups (rev xs))"


section \<open>Notions used to state the properties\<close>

definition parsed :: "csv_parser \<Rightarrow> string \<Rightarrow> encoding \<times> char \<Rightarrow> bool" where
  \<comment> \<open>The parser raises nothing for this combination.\<close>
  "parsed rd raw c = (case rd (fst c) (snd c) raw of Inl e \<Rightarrow> False | Inr df \<Rightarrow> True)"

definition then_clean :: "csv_parser \<Rightarrow> csv_parser" where
  \<comment> \<open>Parsing followed by \<^verbatim>\<open>_clean\<close>, the body of the \<^verbatim>\<open>try\<close> of ingest.py.\<close>
  "then_clean rd enc sep raw = (case rd enc sep raw of Inl e \<Rightarrow> Inl e | Inr df \<Rightarrow> clean df)"

definition recognized :: "string list" where
  "recognized = map fst how_map"

definition empty_value :: "string option \<Rightarrow> string \<Rightarrow> cell" where
  \<comment> \<open>What a bucket without rows holds: 0 when rows are counted or summed, the
      missing value under the other reductions.\<close>
  "empty_value y how =
     (case y of
        None \<Rightarrow> Num 0
      | Some yc \<Rightarrow> if how = ''contagem'' then Num 0
                   else if how_map_get how ''sum'' = ''sum'' then Num 0 else NA)"

definition csv_one_column :: string where
  \<comment> \<open>The bytes of \<^verbatim>\<open>a\n1\n\<close>.\<close>
  "csv_one_column = [CHR ''a'', CHR 0x0A, CHR ''1'', CHR 0x0A]"

definition csv_semicolon :: string where
  \<comment> \<open>The bytes of \<^verbatim>\<open>id;val\n1;10\n2;20\n1;30\n\<close>.\<close>
  "csv_semicolon = ''id;val'' @ [CHR 0x0A] @ ''1;10'' @ [CHR 0x0A] @ ''2;20'' @ [CHR 0x0A]
                   @ ''1;30'' @ [CHR 0x0A]"

definition frame :: "(string \<times> cell list) list \<Rightarrow> nat \<Rightarrow> dataframe" where
  \<comment> \<open>A frame as the readers build it: columns and the default index.\<close>
  "frame cs n = \<lparr>cols = cs, idx_name = None, idx = RangeIndex n\<rparr>"


section \<open>Auxiliary facts\<close>

lemma columns_clean_columns: "columns (clean_columns df) = map strip (columns df)"
  by (simp add: clean_columns_def set_columns_def columns_def)

lemma Str_notin_RangeIndex: "Str s \<notin> set (RangeIndex n)"
  by (auto simp: RangeIndex_def)

lemma clean_raises: "cols df \<noteq> [] \<Longrightarrow> clean df = Inl IndexingError"
proof -
  assume ne: "cols df \<noteq> []"
  then obtain c cs where cs: "columns df = c # cs"
    by (cases "cols df") (auto simp: columns_def)
  have neq: "RangeIndex (length (map strip (columns df))) \<noteq> map Str (map strip (columns df))"
    using Str_notin_RangeIndex [of "strip c" "length (map strip (columns df))"] cs
    by (metis list.set_intros(1) list.simps(9))
  show ?thesis
    using neq cs
    by (simp add: clean_def Let_def loc_columns_series_def check_bool_indexer_def
        columns_clean_columns series_map_def pd_Series_def get_indexer_def Str_notin_RangeIndex)
qed

lemma clean_no_columns: "cols df = [] \<Longrightarrow> clean df = Inr (reset_index_drop df)"
  by (cases df) (simp add: clean_def Let_def loc_columns_series_def check_bool_indexer_def clean_columns_def
      set_columns_def columns_def series_map_def pd_Series_def RangeIndex_def select_columns_def)

lemma clean_fails_iff: "clean df = Inl IndexingError \<longleftrightarrow> cols df \<noteq> []"
  using clean_raises clean_no_columns by (cases "cols df = []") auto

lemma select_columns_filter:
  "map snd (filter fst (zip (map (\<lambda>n. P n) (map fst cs)) cs)) = filter (\<lambda>c. P (fst c)) cs"
  by (induction cs) auto

lemma app_drop_unnamed_cols:
  "cols (app_drop_unnamed df) = filter (\<lambda>c. \<not> str_match_Unnamed (fst c)) (cols df)"
  using select_columns_filter [of "\<lambda>n. \<not> str_match_Unnamed n" "cols df"]
  by (simp add: app_drop_unnamed_def loc_columns_array_def select_columns_def columns_def comp_def)

lemma app_drop_unnamed_idem: "app_drop_unnamed (app_drop_unnamed df) = app_drop_unnamed df"
proof -
  have "cols (app_drop_unnamed (app_drop_unnamed df)) = cols (app_drop_unnamed df)"
    by (simp add: app_drop_unnamed_cols)
  then show ?thesis
    by (simp add: app_drop_unnamed_def loc_columns_array_def select_columns_def)
qed

lemma try_read_csv_first:
  "try_read_csv rd raw =
     (case find (parsed rd raw) combos of
        None \<Rightarrow> Inl UnreadableFile
      | Some c \<Rightarrow> rd (fst c) (snd c) raw)"
  by (simp add: try_read_csv_def encodings_def seps_def combos_def parsed_def split: sum.splits)

lemma try_read_csv_unreadable_iff:
  "try_read_csv rd raw = Inl UnreadableFile \<longleftrightarrow> list_all (\<lambda>c. \<not> parsed rd raw c) combos"
  by (simp add: try_read_csv_def encodings_def seps_def combos_def parsed_def split: sum.splits)

lemma read_csv_seps_then_clean:
  "read_csv_seps rd raw enc ss = try_read_csv_seps (then_clean rd) raw enc ss"
  by (induction ss) (auto simp: then_clean_def split: sum.splits)

lemma read_csv_encs_then_clean:
  "read_csv_encs rd raw es = try_read_csv_encs (then_clean rd) raw es"
  by (induction es) (auto simp: read_csv_seps_then_clean split: option.splits)

lemma read_csv_then_clean: "read_csv rd raw = try_read_csv (then_clean rd) raw"
  by (simp add: read_csv_def try_read_csv_def read_csv_encs_then_clean)

lemma read_csv_unreadable:
  assumes "\<And>enc sep df. rd enc sep raw = Inr df \<Longrightarrow> cols df \<noteq> []"
  shows "read_csv rd raw = Inl UnreadableFile"
proof -
  have "\<not> parsed (then_clean rd) raw c" for c
    using assms clean_raises
    by (auto simp: parsed_def then_clean_def split: sum.splits)
  then show ?thesis
    by (simp add: read_csv_then_clean try_read_csv_unreadable_iff list_all_iff)
qed

lemma sorted_group_keys: "sorted (map cell_key (group_keys ks))"
  by (simp add: group_keys_def)

lemma distinct_group_keys: "distinct (group_keys ks)"
  by (simp add: group_keys_def)

lemma set_group_keys: "set (group_keys ks) = set ks"
  by (simp add: group_keys_def)

lemma sum_counts: "sum_list (map (count_list ks) (group_keys ks)) = length ks"
proof -
  have "sum_list (map (count_list ks) (group_keys ks)) = sum (count_list ks) (set (group_keys ks))"
    by (rule sum_list_distinct_conv_sum_set) (rule distinct_group_keys)
  also have "\<dots> = length ks"
    by (simp add: set_group_keys sum_count_set)
  finally show ?thesis .
qed

lemma aggregate_count_table:
  assumes "x \<noteq> ''valor''" and "get_col df x = Inr ks"
  shows "aggregate_count df x =
           Inr \<lparr>cols = [(''x'', group_keys ks),
                        (''valor'', map (\<lambda>k. Num (of_nat (count_list ks k))) (group_keys ks))],
                idx_name = None, idx = RangeIndex (length (group_keys ks))\<rparr>"
  using assms
  by (simp add: aggregate_count_def pd_groupby_size_def series_reset_index_def rename_columns_def)

lemma aggregate_count_valor: "aggregate_count df ''valor'' \<noteq> Inr out"
  by (simp add: aggregate_count_def pd_groupby_size_def series_reset_index_def split: sum.splits)

lemma aggregate_count_keys:
  assumes "aggregate_count df x = Inr out"
  shows "\<exists>ks vs. get_col df x = Inr ks \<and> cols out = [(''x'', group_keys ks), (''valor'', vs)]"
  using assms
  by (auto simp: aggregate_count_def pd_groupby_size_def series_reset_index_def rename_columns_def Let_def
      split: sum.splits if_splits)

lemma aggregate_reduce_keys:
  assumes "aggregate_reduce df x y how = Inr out"
  shows "\<exists>ks vs. get_col df x = Inr ks \<and> cols out = [(''x'', group_keys ks), (''valor'', vs)]"
  using assms
  by (auto simp: aggregate_reduce_def pd_groupby_agg_def series_reset_index_def rename_columns_def Let_def series_name_def
      split: sum.splits if_splits)

lemma aggregate_keys:
  assumes "aggregate df x y how = Inr out"
  shows "\<exists>ks vs. get_col df x = Inr ks \<and> cols out = [(''x'', group_keys ks), (''valor'', vs)]"
  using assms aggregate_count_keys aggregate_reduce_keys
  by (auto simp: aggregate_def split: option.splits if_splits)

lemma how_map_get_unknown: "how \<notin> set (map fst how_map) \<Longrightarrow> how_map_get how d = d"
  by (simp add: how_map_get_def map_of_eq_None_iff [THEN iffD2])

lemma how_map_get_soma: "how_map_get ''soma'' d = ''sum''"
  by (simp add: how_map_get_def how_map_def)

lemma unknown_not_contagem: "how \<notin> set (map fst how_map) \<Longrightarrow> how \<noteq> ''contagem''"
  by (auto simp: how_map_def)

lemma aggregate_unknown: 
  assumes "how \<notin> set (map fst how_map)"
  shows "aggregate df x (Some y) how = aggregate df x (Some y) ''soma''"
  using assms unknown_not_contagem [OF assms]
  by (simp add: aggregate_def aggregate_reduce_def how_map_get_unknown how_map_get_soma)

lemma time_grouped_unknown: 
  assumes "how \<notin> set (map fst how_map)"
  shows "time_grouped tmp (Some y) how f = time_grouped tmp (Some y) ''soma'' f"
  using assms unknown_not_contagem [OF assms]
  by (simp add: time_grouped_def time_reduce_def how_map_get_unknown how_map_get_soma)

lemma time_aggregate_unknown: 
  assumes "how \<notin> set (map fst how_map)"
  shows "time_aggregate td df dc (Some y) how f = time_aggregate td df dc (Some y) ''soma'' f"
  by (simp add: time_aggregate_def Let_def time_grouped_unknown [OF assms] cong: sum.case_cong)

lemma set_argsort: "set (argsort ks) = {0..<length ks}"
  by (simp add: argsort_def)

lemma length_argsort: "length (argsort ks) = length ks"
  by (simp add: argsort_def)

lemma sorted_argsort: "sorted (map (\<lambda>i. cell_key (ks ! i)) (argsort ks))"
  by (simp add: argsort_def)

lemma sorted_Ts: "sorted (map (\<lambda>t. cell_key (Ts t)) ts) \<Longrightarrow> sorted ts"
  by (induction ts) auto

lemma get_col_set_item: "get_col (set_item df c vs) c = Inr vs"
proof (cases "c \<in> set (columns df)")
  case True
  have "map_of (map (\<lambda>p. if fst p = c then (c, vs) else p) cs) c = Some vs"
    if "c \<in> fst ` set cs" for cs :: "(string \<times> cell list) list"
    using that by (induction cs) auto
  with True show ?thesis
    by (simp add: get_col_def set_item_def columns_def)
next
  case False
  then have "map_of (cols df) c = None"
    by (simp add: columns_def map_of_eq_None_iff)
  with False show ?thesis
    by (simp add: get_col_def set_item_def map_add_def)
qed

lemma collect_Inr: "collect xs = Inr rs \<Longrightarrow> xs = map Inr rs"
proof (induction xs arbitrary: rs)
  case Nil
  then show ?case by simp
next
  case (Cons x xs)
  then show ?case by (cases x) (auto split: sum.splits)
qed

lemma time_count_shape:
  assumes "time_count tmp f = Inr g"
  shows "\<exists>dates ps. get_col tmp ''_dt'' = Inr dates \<and> resample_periods f dates = Inr ps \<and>
           cols g = [(''_dt'', map (\<lambda>p. Ts (period_label f p)) ps),
                     (''valor'', map (\<lambda>p. Num (of_nat (length (filter (in_period f p) dates)))) ps)]"
  using assms
  by (auto simp: time_count_def set_index_def pd_resample_size_def series_reset_index_def
      split: sum.splits if_splits)

lemma time_reduce_shape:
  assumes "time_reduce tmp y how f = Inr g"
  shows "\<exists>dates ps vs rs. get_col tmp ''_dt'' = Inr dates \<and> resample_periods f dates = Inr ps \<and>
           map (\<lambda>p. pd_reduce (how_map_get how ''sum'')
                      (map snd (filter (\<lambda>q. in_period f p (fst q)) (zip dates vs)))) ps = map Inr rs \<and>
           cols g = [(''_dt'', map (\<lambda>p. Ts (period_label f p)) ps), (''valor'', rs)]"
  using assms
  by (auto simp: time_reduce_def set_index_def get_series_def pd_resample_agg_def
      series_reset_index_def bucket_values_def Let_def
      dest!: collect_Inr split: sum.splits if_splits)

lemma time_finish_shape:
  assumes "time_finish g = Inr out" and "cols g = [(''_dt'', ls), (''valor'', vs)]"
  shows "cols out = [(''x'', map ((!) ls) (argsort ls)), (''valor'', map ((!) vs) (argsort ls))]"
  using assms
  by (auto simp: time_finish_def rename_columns_def pd_sort_values_def get_col_def
      reset_index_drop_def Let_def split: sum.splits)

lemma how_not_count: "how \<noteq> ''contagem'' \<Longrightarrow> how_map_get how ''sum'' \<noteq> ''count''"
  by (auto simp: how_map_get_def how_map_def split: if_splits)

lemma empty_bucket: 
  "list_all (\<lambda>c. \<not> in_period f p c) dates \<Longrightarrow> filter (\<lambda>q. in_period f p (fst q)) (zip dates vs) = []"
  by (auto simp: filter_empty_conv list_all_iff dest: set_zip_leftD)

lemma empty_bucket_count: 
  "list_all (\<lambda>c. \<not> in_period f p c) dates \<Longrightarrow> filter (in_period f p) dates = []"
  by (auto simp: filter_empty_conv list_all_iff)

lemma pd_reduce_empty:
  assumes "pd_reduce func [] = Inr v" and "func \<noteq> ''count''"
  shows "v = (if func = ''sum'' then Num 0 else NA)"
  using assms by (auto simp: pd_reduce_def reduce_nums_def split: if_splits)

lemma timestamps_mem: "Ts t \<in> set cs \<Longrightarrow> t \<in> set (timestamps cs)"
  by (induction cs rule: timestamps.induct) auto

lemma resample_periods_mem:
  assumes "resample_periods f dates = Inr ps"
    and "Ts t1 \<in> set dates" and "Ts t2 \<in> set dates"
    and "period_of f t1 \<le> p" and "p \<le> period_of f t2"
  shows "p \<in> set ps"
proof -
  from assms(2) have ne: "dates \<noteq> []" by auto
  have m1: "period_of f t1 \<in> set (map (period_of f) (timestamps dates))"
    and m2: "period_of f t2 \<in> set (map (period_of f) (timestamps dates))"
    using assms(2,3) timestamps_mem by auto
  then obtain q qs where q: "map (period_of f) (timestamps dates) = q # qs"
    by (cases "map (period_of f) (timestamps dates)") auto
  from assms(1) ne q have ps: "ps = [fold min qs q .. fold max qs q]"
    by (auto simp: resample_periods_def split: if_splits)
  have "fold min qs q = Min (set (q # qs))" by (rule Min.set_eq_fold [symmetric])
  with m1 q have lo: "fold min qs q \<le> period_of f t1" by (metis List.finite_set Min_le)
  have "fold max qs q = Max (set (q # qs))" by (rule Max.set_eq_fold [symmetric])
  with m2 q have hi: "period_of f t2 \<le> fold max qs q" by (metis List.finite_set Max_ge)
  from lo hi assms(4,5) ps show ?thesis by simp
qed

lemma time_grouped_shape:
  assumes "time_grouped tmp y how f = Inr g"
  shows "\<exists>dates ps vals. get_col tmp ''_dt'' = Inr dates \<and> resample_periods f dates = Inr ps \<and>
           cols g = [(''_dt'', map (\<lambda>p. Ts (period_label f p)) ps), (''valor'', vals)] \<and>
           length vals = length ps \<and>
           (\<forall>j < length ps. list_all (\<lambda>c. \<not> in_period f (ps ! j) c) dates \<longrightarrow> vals ! j = empty_value y how)"
proof (cases "y = None \<or> how = ''contagem''")
  case True
  with assms have "time_count tmp f = Inr g"
    by (auto simp: time_grouped_def split: option.splits)
  from time_count_shape [OF this] obtain dates ps where
    d: "get_col tmp ''_dt'' = Inr dates" "resample_periods f dates = Inr ps"
    "cols g = [(''_dt'', map (\<lambda>p. Ts (period_label f p)) ps),
               (''valor'', map (\<lambda>p. Num (of_nat (length (filter (in_period f p) dates)))) ps)]"
    by blast
  have ev: "empty_value y how = Num 0"
    using True by (auto simp: empty_value_def split: option.splits)
  show ?thesis
    using d ev by (auto simp: empty_bucket_count)
next
  case False
  then obtain yc where y: "y = Some yc" and h: "how \<noteq> ''contagem''" by auto
  with assms have "time_reduce tmp yc how f = Inr g"
    by (simp add: time_grouped_def)
  from time_reduce_shape [OF this] obtain dates ps vs rs where
    d: "get_col tmp ''_dt'' = Inr dates" "resample_periods f dates = Inr ps"
    and m: "map (\<lambda>p. pd_reduce (how_map_get how ''sum'')
                      (map snd (filter (\<lambda>q. in_period f p (fst q)) (zip dates vs)))) ps = map Inr rs"
    and c: "cols g = [(''_dt'', map (\<lambda>p. Ts (period_label f p)) ps), (''valor'', rs)]"
    by blast
  from m have len: "length rs = length ps" by (metis length_map)
  have ev: "empty_value y how = (if how_map_get how ''sum'' = ''sum'' then Num 0 else NA)"
    using y h by (simp add: empty_value_def)
  have "rs ! j = empty_value y how"
    if j: "j < length ps" and e: "list_all (\<lambda>c. \<not> in_period f (ps ! j) c) dates" for j
  proof -
    from m j len have "pd_reduce (how_map_get how ''sum'')
        (map snd (filter (\<lambda>q. in_period f (ps ! j) (fst q)) (zip dates vs))) = Inr (rs ! j)"
      by (metis nth_map)
    then have "pd_reduce (how_map_get how ''sum'') [] = Inr (rs ! j)"
      by (simp add: empty_bucket [OF e])
    from pd_reduce_empty [OF this how_not_count [OF h]] ev show ?thesis by simp
  qed
  with d c len show ?thesis by auto
qed

lemma time_aggregate_shape:
  assumes "time_aggregate td df dc y how f = Inr out"
  shows "\<exists>dates ps vals. get_col df dc = Inr dates \<and>
           resample_periods f (ensure_datetime td dates) = Inr ps \<and>
           length vals = length ps \<and>
           (\<forall>j < length ps. list_all (\<lambda>c. \<not> in_period f (ps ! j) c) (ensure_datetime td dates)
               \<longrightarrow> vals ! j = empty_value y how) \<and>
           cols out = [(''x'', map ((!) (map (\<lambda>p. Ts (period_label f p)) ps))
                                   (argsort (map (\<lambda>p. Ts (period_label f p)) ps))),
                       (''valor'', map ((!) vals) (argsort (map (\<lambda>p. Ts (period_label f p)) ps)))]"
proof -
  from assms obtain dates g where
    d: "get_col df dc = Inr dates"
    and g: "time_grouped (set_item df ''_dt'' (ensure_datetime td dates)) y how f = Inr g"
    and o: "time_finish g = Inr out"
    by (auto simp: time_aggregate_def Let_def split: sum.splits)
  from time_grouped_shape [OF g] obtain ps vals where
    s: "resample_periods f (ensure_datetime td dates) = Inr ps"
    "cols g = [(''_dt'', map (\<lambda>p. Ts (period_label f p)) ps), (''valor'', vals)]"
    "length vals = length ps"
    "\<forall>j < length ps. list_all (\<lambda>c. \<not> in_period f (ps ! j) c) (ensure_datetime td dates)
        \<longrightarrow> vals ! j = empty_value y how"
    by (auto simp: get_col_set_item)
  from time_finish_shape [OF o s(2)] d s show ?thesis by blast
qed

















lemma unchanged_count: "unchanged st (fst (aggregate_count_st st df x))"
  by (simp add: unchanged_def aggregate_count_st_def alloc_def split: sum.splits)

lemma unchanged_reduce: "unchanged st (fst (aggregate_reduce_st st df x y how))"
  by (simp add: unchanged_def aggregate_reduce_st_def alloc_def Let_def split: sum.splits)

lemma unchanged_aggregate: "unchanged st (fst (aggregate_st st df x y how))"
  by (simp add: aggregate_st_def unchanged_count unchanged_reduce split: option.splits)

lemma unchanged_time_aggregate: "unchanged st (fst (time_aggregate_st td st df dc y how f))"
  by (simp add: unchanged_def time_aggregate_st_def alloc_def Let_def split: sum.splits)

lemma clean_st_store:
  "take (length st) (fst (clean_st st df)) = st[df := clean_columns (st ! df)]"
  by (simp add: clean_st_def alloc_def Let_def split: sum.splits)

lemma clean_columns_keeps:
  "map snd (cols (clean_columns d)) = map snd (cols d) \<and> idx (clean_columns d) = idx d
   \<and> idx_name (clean_columns d) = idx_name d \<and> columns (clean_columns d) = map strip (columns d)"
  by (simp add: clean_columns_def set_columns_def columns_def)

lemma result_of_aggregate_count: "result_of (aggregate_count_st st df x) = aggregate_count (st ! df) x"
  by (simp add: result_of_def aggregate_count_st_def aggregate_count_def alloc_def split: sum.splits)

lemma result_of_aggregate_reduce:
  "result_of (aggregate_reduce_st st df x y how) = aggregate_reduce (st ! df) x y how"
  by (simp add: result_of_def aggregate_reduce_st_def aggregate_reduce_def alloc_def Let_def split: sum.splits)

lemma result_of_aggregate: "result_of (aggregate_st st df x y how) = aggregate (st ! df) x y how"
  by (simp add: aggregate_st_def aggregate_def result_of_aggregate_count result_of_aggregate_reduce
      split: option.splits)

lemma result_of_time_aggregate:
  "result_of (time_aggregate_st td st df dc y how f) = time_aggregate td (st ! df) dc y how f"
  by (simp add: result_of_def time_aggregate_st_def time_aggregate_def time_finish_def alloc_def Let_def
      nth_append split: sum.splits)

lemma result_of_clean: "df < length st \<Longrightarrow> result_of (clean_st st df) = clean (st ! df)"
  by (simp add: result_of_def clean_st_def clean_def alloc_def Let_def nth_append split: sum.splits)

lemma read_csv_first:
  "read_csv rd raw =
     (case find (parsed (then_clean rd) raw) combos of
        None \<Rightarrow> Inl UnreadableFile
      | Some c \<Rightarrow> then_clean rd (fst c) (snd c) raw)"
  by (simp add: read_csv_then_clean try_read_csv_first)

lemma aggregate_count_correct:
  assumes "x \<noteq> ''valor''" and "get_col df x = Inr ks" and "y = None \<or> how = ''contagem''"
  shows "aggregate df x y how =
           Inr (frame [(''x'', group_keys ks),
                       (''valor'', map (\<lambda>k. Num (of_nat (count_list ks k))) (group_keys ks))]
                      (length (group_keys ks)))"
    and "distinct (group_keys ks)"
    and "set (group_keys ks) = set ks"
    and "sum_list (map (count_list ks) (group_keys ks)) = length ks"
  using assms aggregate_count_table [OF assms(1,2)]
  by (auto simp: aggregate_def frame_def distinct_group_keys set_group_keys sum_counts
      split: option.splits)


lemma time_finish_returns:
  "\<exists>out. time_finish \<lparr>cols = [(''_dt'', ls), (''valor'', vs)], idx_name = None, idx = ix\<rparr> = Inr out"
  by (simp add: time_finish_def rename_columns_def pd_sort_values_def get_col_def Let_def)

lemma time_count_returns:
  assumes "get_col tmp ''_dt'' = Inr sdt" and "is_datetime64 sdt" and "timestamps sdt \<noteq> []"
  shows "\<exists>ls vs ix. time_count tmp f = Inr \<lparr>cols = [(''_dt'', ls), (''valor'', vs)], idx_name = None, idx = ix\<rparr>"
proof -
  from assms(3) have ne: "sdt \<noteq> []" by auto
  from assms(3) obtain q qs where "map (period_of f) (timestamps sdt) = q # qs"
    by (cases "timestamps sdt") auto
  with assms(2) ne have "\<exists>ps. resample_periods f sdt = Inr ps"
    by (simp add: resample_periods_def)
  then obtain ps where "resample_periods f sdt = Inr ps" by blast
  with assms(1) show ?thesis
    by (simp add: time_count_def set_index_def pd_resample_size_def series_reset_index_def)
qed

lemma time_aggregate_count_returns:
  assumes "get_col df date_col = Inr dates"
    and "is_datetime64 (ensure_datetime to_datetime dates)"
    and "timestamps (ensure_datetime to_datetime dates) \<noteq> []"
    and "y = None \<or> how = ''contagem''"
  shows "\<exists>out. time_aggregate to_datetime df date_col y how freq = Inr out"
proof -
  define tmp where "tmp = set_item df ''_dt'' (ensure_datetime to_datetime dates)"
  have "get_col tmp ''_dt'' = Inr (ensure_datetime to_datetime dates)"
    by (simp add: tmp_def get_col_set_item)
  from time_count_returns [OF this assms(2,3)] obtain ls vs ix where
    c: "time_count tmp freq = Inr \<lparr>cols = [(''_dt'', ls), (''valor'', vs)], idx_name = None, idx = ix\<rparr>"
    by blast
  from assms(4) have g: "time_grouped tmp y how freq = time_count tmp freq"
    by (auto simp: time_grouped_def split: option.splits)
  from time_finish_returns obtain out where
    "time_finish \<lparr>cols = [(''_dt'', ls), (''valor'', vs)], idx_name = None, idx = ix\<rparr> = Inr out"
    by blast
  with c g assms(1) show ?thesis
    by (simp add: time_aggregate_def Let_def tmp_def)
qed


lemma try_read_csv_semicolon:
  "try_read_csv pd_read_csv csv_semicolon
     = Inr (frame [(''id;val'', [Str ''1;10'', Str ''2;20'', Str ''1;30''])] 3)
   \<and> aggregate (frame [(''id;val'', [Str ''1;10'', Str ''2;20'', Str ''1;30''])] 3)
               ''id'' (Some ''val'') ''soma''
     = Inl (KeyError ''id'')"
  by code_simp


section \<open>The claims\<close>

subsection \<open>C1: the CSV fallback\<close>

text \<open>
  C1 says that the reader returns the table of the first of the eight combinations
  whose parse raises nothing, and raises \<open>UnreadableFile\<close> only when all eight
  parses fail. \<open>try_read_csv\<close> of app.py does so (\<open>try_read_csv_first\<close>,
  \<open>try_read_csv_unreadable_iff\<close>). In \<open>_read_csv\<close> of ingest.py the call of
  \<open>_clean\<close> stands inside the \<^verbatim>\<open>try\<close> (\<open>read_csv_first\<close>), and \<open>_clean\<close> raises
  on every frame that has a column (\<open>clean_raises\<close>): on the bytes \<^verbatim>\<open>a\n1\n\<close> the
  first combination parses into one column and one row, and \<open>_read_csv\<close> still
  raises \<open>UnreadableFile\<close>.
\<close>

theorem read_csv_rejects_parsed_input:
  "pd_read_csv Utf8 (CHR '','') csv_one_column = Inr (frame [(''a'', [Num 1])] 1)
   \<and> try_read_csv pd_read_csv csv_one_column = Inr (frame [(''a'', [Num 1])] 1)
   \<and> read_csv pd_read_csv csv_one_column = Inl UnreadableFile"
  by code_simp


subsection \<open>C2: counting rows per key\<close>

text \<open>
  C2 says that for every table and key column the count path of \<open>aggregate\<close>
  returns one row per distinct key with the number of rows of that key, under the
  column names \<open>x\<close> and \<open>valor\<close>. This holds for every key column not itself named
  \<open>valor\<close> (\<open>aggregate_count_correct\<close>). For a key column named \<open>valor\<close> the call
  \<^verbatim>\<open>reset_index(name="valor")\<close> has to insert the index \<open>valor\<close> into a frame that
  already has the column \<open>valor\<close>, and pandas raises ValueError.
\<close>

theorem aggregate_count_rejects_key_valor:
  "aggregate (frame [(''valor'', [Num 5, Num 5, Num 7])] 3) ''valor'' None ''contagem''
     = Inl PdValueError"
  by code_simp


subsection \<open>C3: the result of time_aggregate is sorted\<close>

text \<open>
  C3: for every input table (in any order of its rows), date column, mode and
  frequency, a result of \<open>time_aggregate\<close> has the columns \<open>x\<close> and \<open>valor\<close>, and
  \<open>x\<close> holds timestamps in ascending order. (That there is a result when rows
  are counted over a date column with at least one timestamp is
  \<open>time_aggregate_count_returns\<close>.)
\<close>

theorem time_aggregate_sorted:
  assumes "time_aggregate td df dc y how f = Inr out"
  shows "\<exists>ts vs. cols out = [(''x'', map Ts ts), (''valor'', vs)] \<and> sorted ts"
proof -
  from time_aggregate_shape [OF assms] obtain ps vs where
    c: "cols out = [(''x'', map ((!) (map (\<lambda>p. Ts (period_label f p)) ps))
                                   (argsort (map (\<lambda>p. Ts (period_label f p)) ps))), (''valor'', vs)]"
    by blast
  define ls where "ls = map (\<lambda>p. Ts (period_label f p)) ps"
  define ts where "ts = map (\<lambda>i. period_label f (ps ! i)) (argsort ls)"
  have in_range: "i < length ps" if "i \<in> set (argsort ls)" for i
    using that by (simp add: set_argsort ls_def)
  have x: "map ((!) ls) (argsort ls) = map Ts ts"
    using in_range by (simp add: ts_def ls_def)
  have "map (\<lambda>i. cell_key (ls ! i)) (argsort ls) = map (\<lambda>t. cell_key (Ts t)) ts"
    using in_range by (simp add: ts_def ls_def)
  with sorted_argsort [of ls] have "sorted ts"
    by (simp add: sorted_Ts)
  with c x show ?thesis
    by (auto simp: ls_def)
qed

text \<open>C3, at a table whose rows are in descending order of date.\<close>

theorem time_aggregate_sorted_witness:
  "time_aggregate (\<lambda>s. s) (frame [(''d'', [Ts (2 * ns_per_day), Ts 0])] 2) ''d'' None ''contagem'' Day
     = Inr (frame [(''x'', [Ts 0, Ts ns_per_day, Ts (2 * ns_per_day)]),
                   (''valor'', [Num 1, Num 0, Num 1])] 3)
   \<and> (\<exists>ts vs. cols (frame [(''x'', [Ts 0, Ts ns_per_day, Ts (2 * ns_per_day)]),
                              (''valor'', [Num 1, Num 0, Num 1])] 3)
                  = [(''x'', map Ts ts), (''valor'', vs)] \<and> sorted ts)"
proof -
  have h: "time_aggregate (\<lambda>s. s) (frame [(''d'', [Ts (2 * ns_per_day), Ts 0])] 2) ''d'' None
             ''contagem'' Day
           = Inr (frame [(''x'', [Ts 0, Ts ns_per_day, Ts (2 * ns_per_day)]),
                         (''valor'', [Num 1, Num 0, Num 1])] 3)"
    by code_simp
  from time_aggregate_sorted [OF h] h show ?thesis by simp
qed


subsection \<open>C4: the order of the keys of aggregate\<close>

text \<open>
  C4 says that the keys of the output of \<open>aggregate\<close> stand in the order in which
  they are first met in the rows. \<^verbatim>\<open>groupby\<close> is called with its default
  \<^verbatim>\<open>sort=True\<close>: for the keys b, a, b the output has a before b, while the order of
  first occurrence is b, a.
\<close>

theorem aggregate_order_counterexample:
  "aggregate (frame [(''k'', [Str ''b'', Str ''a'', Str ''b'']), (''v'', [Num 1, Num 2, Num 3])] 3)
             ''k'' (Some ''v'') ''soma''
     = Inr (frame [(''x'', [Str ''a'', Str ''b'']), (''valor'', [Num 2, Num 4])] 2)
   \<and> first_seen [Str ''b'', Str ''a'', Str ''b''] = [Str ''b'', Str ''a'']
   \<and> [Str ''a'', Str ''b''] \<noteq> first_seen [Str ''b'', Str ''a'', Str ''b'']"
  by code_simp

text \<open>
  C4 as amended: for every table, key column, value column and mode, the column
  \<open>x\<close> of the output of \<open>aggregate\<close> holds the distinct key values of the input,
  each once, in ascending order (the missing value last), whatever the order of the
  rows.
\<close>

theorem aggregate_keys_ascending:
  assumes "aggregate df x y how = Inr out"
  shows "\<exists>ks xs vs. get_col df x = Inr ks \<and> cols out = [(''x'', xs), (''valor'', vs)]
           \<and> sorted (map cell_key xs) \<and> distinct xs \<and> set xs = set ks"
  using aggregate_keys [OF assms] sorted_group_keys distinct_group_keys set_group_keys
  by blast

text \<open>C4 as amended, at the table of the counterexample.\<close>

theorem aggregate_keys_ascending_witness:
  "aggregate (frame [(''k'', [Str ''b'', Str ''a'', Str ''b'']), (''v'', [Num 1, Num 2, Num 3])] 3)
             ''k'' (Some ''v'') ''soma''
     = Inr (frame [(''x'', [Str ''a'', Str ''b'']), (''valor'', [Num 2, Num 4])] 2)
   \<and> (\<exists>ks xs vs.
         get_col (frame [(''k'', [Str ''b'', Str ''a'', Str ''b'']), (''v'', [Num 1, Num 2, Num 3])] 3) ''k''
           = Inr ks
         \<and> cols (frame [(''x'', [Str ''a'', Str ''b'']), (''valor'', [Num 2, Num 4])] 2)
           = [(''x'', xs), (''valor'', vs)]
         \<and> sorted (map cell_key xs) \<and> distinct xs \<and> set xs = set ks)"
proof -
  have h: "aggregate (frame [(''k'', [Str ''b'', Str ''a'', Str ''b'']), (''v'', [Num 1, Num 2, Num 3])] 3)
             ''k'' (Some ''v'') ''soma''
           = Inr (frame [(''x'', [Str ''a'', Str ''b'']), (''valor'', [Num 2, Num 4])] 2)"
    by code_simp
  from aggregate_keys_ascending [OF h] h show ?thesis by simp
qed


subsection \<open>C5: periods without rows\<close>

text \<open>
  C5 says that the output of \<open>time_aggregate\<close> has no row for a period into which
  no input row falls. \<^verbatim>\<open>resample\<close> emits every period between the first and the
  last: with one row on 1970-01-01 and one on 1970-01-03 the daily count has a row
  for 1970-01-02, with the value 0.
\<close>

theorem time_aggregate_emits_empty_period:
  "time_aggregate (\<lambda>s. s) (frame [(''d'', [Ts 0, Ts (2 * ns_per_day)])] 2) ''d'' None ''contagem'' Day
     = Inr (frame [(''x'', [Ts 0, Ts ns_per_day, Ts (2 * ns_per_day)]),
                   (''valor'', [Num 1, Num 0, Num 1])] 3)
   \<and> list_all (\<lambda>c. \<not> in_period Day 1 c) [Ts 0, Ts (2 * ns_per_day)]
   \<and> period_label Day 1 = ns_per_day"
  by code_simp

text \<open>
  C5 as amended: the output of \<open>time_aggregate\<close> has a row for every calendar
  period from the period of the earliest input timestamp to the period of the
  latest one, also for a period into which no input row falls; such a row holds 0
  when rows are counted or summed and the missing value under mean, median,
  maximum and minimum.
\<close>

theorem time_aggregate_fills_range:
  assumes "time_aggregate td df dc y how f = Inr out"
    and "get_col df dc = Inr dates"
    and "Ts t1 \<in> set (ensure_datetime td dates)" and "Ts t2 \<in> set (ensure_datetime td dates)"
    and "period_of f t1 \<le> p" and "p \<le> period_of f t2"
  shows "\<exists>xs vs i. cols out = [(''x'', xs), (''valor'', vs)] \<and> length vs = length xs \<and> i < length xs \<and>
           xs ! i = Ts (period_label f p) \<and>
           (list_all (\<lambda>c. \<not> in_period f p c) (ensure_datetime td dates) \<longrightarrow> vs ! i = empty_value y how)"
proof -
  define sdt where "sdt = ensure_datetime td dates"
  from time_aggregate_shape [OF assms(1)] assms(2) obtain ps vals where
    r: "resample_periods f sdt = Inr ps"
    and len: "length vals = length ps"
    and ev: "\<forall>j < length ps. list_all (\<lambda>c. \<not> in_period f (ps ! j) c) sdt \<longrightarrow> vals ! j = empty_value y how"
    and c: "cols out = [(''x'', map ((!) (map (\<lambda>p. Ts (period_label f p)) ps))
                                   (argsort (map (\<lambda>p. Ts (period_label f p)) ps))),
                       (''valor'', map ((!) vals) (argsort (map (\<lambda>p. Ts (period_label f p)) ps)))]"
    by (auto simp: sdt_def)
  define ls where "ls = map (\<lambda>p. Ts (period_label f p)) ps"
  from resample_periods_mem [OF r] assms(3-6) have "p \<in> set ps"
    by (simp add: sdt_def)
  then obtain j where j: "j < length ps" "ps ! j = p"
    by (auto simp: in_set_conv_nth)
  then have "j \<in> set (argsort ls)"
    by (simp add: set_argsort ls_def)
  then obtain i where i: "i < length (argsort ls)" "argsort ls ! i = j"
    by (auto simp: in_set_conv_nth)
  have "map ((!) ls) (argsort ls) ! i = Ts (period_label f p)"
    using i j by (simp add: ls_def)
  moreover have "map ((!) vals) (argsort ls) ! i = vals ! j"
    using i by simp
  moreover have "list_all (\<lambda>c. \<not> in_period f p c) sdt \<longrightarrow> vals ! j = empty_value y how"
    using ev j by auto
  ultimately show ?thesis
    using c i by (auto simp: ls_def sdt_def)
qed

text \<open>C5 as amended, at the table of the counterexample and the period 1970-01-02.\<close>

theorem time_aggregate_fills_range_witness:
  "time_aggregate (\<lambda>s. s) (frame [(''d'', [Ts 0, Ts (2 * ns_per_day)])] 2) ''d'' None ''contagem'' Day
     = Inr (frame [(''x'', [Ts 0, Ts ns_per_day, Ts (2 * ns_per_day)]),
                   (''valor'', [Num 1, Num 0, Num 1])] 3)
   \<and> get_col (frame [(''d'', [Ts 0, Ts (2 * ns_per_day)])] 2) ''d'' = Inr [Ts 0, Ts (2 * ns_per_day)]
   \<and> Ts 0 \<in> set (ensure_datetime (\<lambda>s. s) [Ts 0, Ts (2 * ns_per_day)])
   \<and> Ts (2 * ns_per_day) \<in> set (ensure_datetime (\<lambda>s. s) [Ts 0, Ts (2 * ns_per_day)])
   \<and> period_of Day 0 \<le> 1 \<and> 1 \<le> period_of Day (2 * ns_per_day)
   \<and> (\<exists>xs vs i. cols (frame [(''x'', [Ts 0, Ts ns_per_day, Ts (2 * ns_per_day)]),
                               (''valor'', [Num 1, Num 0, Num 1])] 3)
                   = [(''x'', xs), (''valor'', vs)]
         \<and> length vs = length xs \<and> i < length xs \<and> xs ! i = Ts (period_label Day 1)
         \<and> (list_all (\<lambda>c. \<not> in_period Day 1 c) (ensure_datetime (\<lambda>s. s) [Ts 0, Ts (2 * ns_per_day)])
              \<longrightarrow> vs ! i = empty_value None ''contagem''))"
proof -
  have h1: "time_aggregate (\<lambda>s. s) (frame [(''d'', [Ts 0, Ts (2 * ns_per_day)])] 2) ''d'' None
              ''contagem'' Day
            = Inr (frame [(''x'', [Ts 0, Ts ns_per_day, Ts (2 * ns_per_day)]),
                          (''valor'', [Num 1, Num 0, Num 1])] 3)"
    by code_simp
  have h2: "get_col (frame [(''d'', [Ts 0, Ts (2 * ns_per_day)])] 2) ''d''
            = Inr [Ts 0, Ts (2 * ns_per_day)]"
    by code_simp
  have h3: "Ts 0 \<in> set (ensure_datetime (\<lambda>s. s) [Ts 0, Ts (2 * ns_per_day)])"
    by code_simp
  have h4: "Ts (2 * ns_per_day) \<in> set (ensure_datetime (\<lambda>s. s) [Ts 0, Ts (2 * ns_per_day)])"
    by code_simp
  have h5: "period_of Day 0 \<le> 1"
    by code_simp
  have h6: "1 \<le> period_of Day (2 * ns_per_day)"
    by code_simp
  from time_aggregate_fills_range [OF h1 h2 h3 h4 h5 h6] h1 h2 h3 h4 h5 h6
  show ?thesis by simp
qed


subsection \<open>C6: the semicolon scenario\<close>

text \<open>
  C6 says that reading the bytes \<^verbatim>\<open>id;val\n1;10\n2;20\n1;30\n\<close> succeeds with the
  combination utf-8 and semicolon, as the first one, and yields two columns and
  three rows. The first combination whose parse raises nothing is utf-8 with comma:
  it gives one column named \<^verbatim>\<open>id;val\<close> with three rows. \<open>_read_csv\<close> of ingest.py
  does not return the table of two columns for these bytes (it raises
  \<open>UnreadableFile\<close>, through \<open>_clean\<close>, see C8).
\<close>

theorem csv_semicolon_first_parse_is_comma:
  "find (parsed pd_read_csv csv_semicolon) combos = Some (Utf8, CHR '','')
   \<and> pd_read_csv Utf8 (CHR '','') csv_semicolon
     = Inr (frame [(''id;val'', [Str ''1;10'', Str ''2;20'', Str ''1;30''])] 3)
   \<and> read_csv pd_read_csv csv_semicolon = Inl UnreadableFile
   \<and> read_csv pd_read_csv csv_semicolon
     \<noteq> Inr (frame [(''id'', [Num 1, Num 2, Num 1]), (''val'', [Num 10, Num 20, Num 30])] 3)"
  by code_simp

text \<open>
  C6 as amended: for these bytes the parse of the first combination, utf-8 with
  comma, already raises no error and gives one column \<^verbatim>\<open>id;val\<close> and three rows, so
  utf-8 with semicolon is not the first combination whose parse succeeds. Parsed
  with utf-8 and semicolon the bytes give two columns and three rows, and
  \<open>aggregate\<close> of that table with key \<open>id\<close>, value \<open>val\<close> and mode \<open>soma\<close> yields
  exactly the rows (1, 40), (2, 20). (Nothing is said here about what \<open>_read_csv\<close>
  returns.)
\<close>

theorem csv_semicolon_scenario:
  "pd_read_csv Utf8 (CHR '','') csv_semicolon
     = Inr (frame [(''id;val'', [Str ''1;10'', Str ''2;20'', Str ''1;30''])] 3)
   \<and> find (parsed pd_read_csv csv_semicolon) combos = Some (Utf8, CHR '','')
   \<and> pd_read_csv Utf8 (CHR '';'') csv_semicolon
     = Inr (frame [(''id'', [Num 1, Num 2, Num 1]), (''val'', [Num 10, Num 20, Num 30])] 3)
   \<and> aggregate (frame [(''id'', [Num 1, Num 2, Num 1]), (''val'', [Num 10, Num 20, Num 30])] 3)
               ''id'' (Some ''val'') ''soma''
     = Inr (frame [(''x'', [Num 1, Num 2]), (''valor'', [Num 40, Num 20])] 2)"
  by code_simp


subsection \<open>C7: when plot_generic rejects a request\<close>




subsection \<open>C8: clean\<close>

text \<open>
  C8 says that \<open>_clean\<close> never fails and is idempotent. Line 178 of ingest.py
  builds the mask from \<^verbatim>\<open>pd.Series(df.columns)\<close>, a Series indexed 0..n-1, and
  \<^verbatim>\<open>df.loc[:, mask]\<close> aligns a boolean Series with the column labels by its index:
  no column name is among 0..n-1, so the call raises IndexingError for every frame
  that has a column (\<open>clean_fails_iff\<close>). On the frame with the single column \<open>a\<close>
  and one row, \<open>_clean\<close> raises. The same filter in app.py line 104 takes its mask
  from \<^verbatim>\<open>df.columns\<close> directly, an array, and is total and idempotent
  (\<open>app_drop_unnamed_idem\<close>).
\<close>

theorem clean_raises_on_one_column:
  "clean (frame [(''a'', [Num 1])] 1) = Inl IndexingError"
  by code_simp


subsection \<open>C9: what the stages do to their argument\<close>

text \<open>
  C9 says that every stage leaves the table it is given unchanged. \<open>_clean\<close>
  assigns the trimmed names to the columns of its argument: given a frame whose
  column is named \<open>a\<close> with a leading blank, the frame of the caller has the column
  \<open>a\<close> after the call.
\<close>

theorem clean_renames_its_argument:
  "fst (clean_st [frame [('' a'', [Num 1])] 1] 0) ! 0 = frame [(''a'', [Num 1])] 1
   \<and> frame [(''a'', [Num 1])] 1 \<noteq> frame [('' a'', [Num 1])] 1
   \<and> \<not> unchanged [frame [('' a'', [Num 1])] 1] (fst (clean_st [frame [('' a'', [Num 1])] 1] 0))"
  by code_simp

text \<open>
  C9 as amended: \<open>infer_types\<close>, \<open>basic_stats\<close>, \<open>aggregate\<close>, \<open>time_aggregate\<close> and
  \<open>plot_generic\<close> leave every frame that exists before the call, the argument
  among them, as it is (names, values, order of rows) and return new objects;
  \<open>_clean\<close> replaces the column names of its argument by the trimmed names and
  leaves its values, its index and every other frame as they are.
\<close>

theorem stages_and_their_argument:
  "fst (infer_types_st st df) = st
   \<and> fst (basic_stats_st st df) = st
   \<and> fst (plot_generic_st tipo st df x y color aggregated) = st
   \<and> unchanged st (fst (aggregate_st st df x y how))
   \<and> unchanged st (fst (time_aggregate_st to_datetime st df date_col y how freq))
   \<and> take (length st) (fst (clean_st st df)) = st[df := clean_columns (st ! df)]
   \<and> columns (clean_columns (st ! df)) = map strip (columns (st ! df))
   \<and> map snd (cols (clean_columns (st ! df))) = map snd (cols (st ! df))
   \<and> idx (clean_columns (st ! df)) = idx (st ! df)
   \<and> idx_name (clean_columns (st ! df)) = idx_name (st ! df)"
  using unchanged_aggregate [of st df x y how]
    unchanged_time_aggregate [of st to_datetime df date_col y how freq]
    clean_st_store [of st df] clean_columns_keeps [of "st ! df"]
  by (simp add: infer_types_st_def basic_stats_st_def plot_generic_st_def)


subsection \<open>C10: a mode that is not recognized\<close>

text \<open>
  C10: for a mode outside the six recognized names and a value column that is
  given, \<open>aggregate\<close> and \<open>time_aggregate\<close> look the mode up with the default
  \<open>sum\<close> and return what they return for the mode \<open>soma\<close>, error or table alike.
\<close>

theorem unknown_mode_is_soma:
  assumes "how \<notin> set recognized"
  shows "how_map_get how ''sum'' = ''sum''
         \<and> aggregate df x (Some y) how = aggregate df x (Some y) ''soma''
         \<and> time_aggregate to_datetime df date_col (Some y) how freq
             = time_aggregate to_datetime df date_col (Some y) ''soma'' freq"
  using assms
  by (simp add: recognized_def how_map_get_unknown aggregate_unknown time_aggregate_unknown)

text \<open>C10, at the mode \<open>total\<close> and the table of the semicolon scenario.\<close>

theorem unknown_mode_is_soma_witness:
  "''total'' \<notin> set recognized
   \<and> how_map_get ''total'' ''sum'' = ''sum''
   \<and> aggregate (frame [(''id'', [Num 1, Num 2, Num 1]), (''val'', [Num 10, Num 20, Num 30])] 3)
               ''id'' (Some ''val'') ''total''
     = aggregate (frame [(''id'', [Num 1, Num 2, Num 1]), (''val'', [Num 10, Num 20, Num 30])] 3)
                 ''id'' (Some ''val'') ''soma''
   \<and> time_aggregate (\<lambda>s. s) (frame [(''d'', [Ts 0, Ts 5]), (''val'', [Num 10, Num 20])] 2)
                    ''d'' (Some ''val'') ''total'' Day
     = time_aggregate (\<lambda>s. s) (frame [(''d'', [Ts 0, Ts 5]), (''val'', [Num 10, Num 20])] 2)
                      ''d'' (Some ''val'') ''soma'' Day
   \<and> aggregate (frame [(''id'', [Num 1, Num 2, Num 1]), (''val'', [Num 10, Num 20, Num 30])] 3)
               ''id'' (Some ''val'') ''total''
     = Inr (frame [(''x'', [Num 1, Num 2]), (''valor'', [Num 40, Num 20])] 2)"
proof -
  have h: "''total'' \<notin> set recognized"
    by code_simp
  have v: "aggregate (frame [(''id'', [Num 1, Num 2, Num 1]), (''val'', [Num 10, Num 20, Num 30])] 3)
             ''id'' (Some ''val'') ''soma''
           = Inr (frame [(''x'', [Num 1, Num 2]), (''valor'', [Num 40, Num 20])] 2)"
    by code_simp
  from unknown_mode_is_soma [OF h, of "frame [(''id'', [Num 1, Num 2, Num 1]), (''val'', [Num 10, Num 20, Num 30])] 3"
      "''id''" "''val''"]
    unknown_mode_is_soma [OF h, of "frame [(''d'', [Ts 0, Ts 5]), (''val'', [Num 10, Num 20])] 2"
      "''d''" "''val''" "\<lambda>s. s" "''d''" Day]
    h v
  show ?thesis by simp
qed

end
